theory Spec2Isabelle
  imports Main "HOL-Library.Word"
begin

section \<open>Objects held by the resource store\<close>

text \<open>
  The syncer of \<^verbatim>\<open>agent/pkg/spec/syncers/migration_from_syncer.go\<close> works on four kinds
  of object. Only the fields the syncer reads or writes are kept.
\<close>

type_synonym bytes = "8 word list"

text \<open>\<^verbatim>\<open>corev1.Secret\<close>: name, namespace and the \<^verbatim>\<open>map[string][]byte\<close> payload.\<close>

record Secret =
  secret_Name :: string
  secret_Namespace :: string
  secret_Data :: "string \<rightharpoonup> bytes"

text \<open>
  \<^verbatim>\<open>klusterletv1alpha1.KlusterletConfig\<close>: cluster-scoped, addressed by name;
  \<open>kc_KubeConfigSecrets\<close> is the list
  \<^verbatim>\<open>Spec.BootstrapKubeConfigs.LocalSecrets.KubeConfigSecrets\<close>, each entry being just
  a secret name.
\<close>

record KlusterletConfig =
  kc_Name :: string
  kc_KubeConfigSecrets :: "string list"

text \<open>\<^verbatim>\<open>metav1.Condition\<close>; type and status are both Go strings.\<close>

record Condition =
  cond_Type :: string
  cond_Status :: string

text \<open>
  \<^verbatim>\<open>clusterv1.ManagedCluster\<close>. The annotation map of a Go object may be \<^verbatim>\<open>nil\<close>,
  which is \<open>None\<close> here.
\<close>

record ManagedCluster =
  mc_Name :: string
  mc_Annotations :: "(string \<rightharpoonup> string) option"
  mc_Conditions :: "Condition list"

text \<open>
  \<^verbatim>\<open>bundleevent.ManagedClusterMigrationFromEvent\<close>. The two objects are pointers in
  the Go struct, so a decoded event may carry \<^verbatim>\<open>nil\<close> for either.
\<close>

record Event =
  ev_BootstrapSecret :: "Secret option"
  ev_KlusterletConfig :: "KlusterletConfig option"
  ev_ManagedClusters :: "string list"

section \<open>Errors and outcomes\<close>

datatype error =
    NotFound
  | AlreadyExists
  | Conflict
  | StoreError string
  | ContextCanceled
  | DecodeError string

text \<open>\<^verbatim>\<open>apierrors.IsNotFound\<close>.\<close>

definition IsNotFound :: "error \<Rightarrow> bool" where
  "IsNotFound err = (err = NotFound)"

text \<open>
  What a call of \<^verbatim>\<open>Sync\<close> does to its caller: it returns an \<^verbatim>\<open>error\<close>
  (\<open>None\<close> is \<^verbatim>\<open>nil\<close>) or it panics on a nil pointer.
\<close>

datatype outcome = Returned "error option" | Panicked

section \<open>The client and the context\<close>

text \<open>
  \<^verbatim>\<open>client.Client\<close> is an interface, so the syncer is modelled over an arbitrary
  implementation of it, acting on a world \<open>'w\<close> that it alone knows. \<^verbatim>\<open>Get\<close> fills
  the object it is handed; \<^verbatim>\<open>Create\<close> and \<^verbatim>\<open>Update\<close> take a pointer and leave in it
  what the server answered, so they return the object as well; \<^verbatim>\<open>Delete\<close> returns
  an error only. A secret is addressed by name and namespace, the two cluster-scoped
  kinds by name.
\<close>

record 'w Client =
  GetSecret :: "string \<Rightarrow> string \<Rightarrow> 'w \<Rightarrow> (error + Secret) \<times> 'w"
  CreateSecret :: "Secret \<Rightarrow> 'w \<Rightarrow> (error + Secret) \<times> 'w"
  UpdateSecret :: "Secret \<Rightarrow> 'w \<Rightarrow> (error + Secret) \<times> 'w"
  GetKlusterletConfig :: "string \<Rightarrow> 'w \<Rightarrow> (error + KlusterletConfig) \<times> 'w"
  CreateKlusterletConfig :: "KlusterletConfig \<Rightarrow> 'w \<Rightarrow> (error + KlusterletConfig) \<times> 'w"
  GetManagedCluster :: "string \<Rightarrow> 'w \<Rightarrow> (error + ManagedCluster) \<times> 'w"
  UpdateManagedCluster :: "ManagedCluster \<Rightarrow> 'w \<Rightarrow> (error + ManagedCluster) \<times> 'w"
  DeleteManagedCluster :: "ManagedCluster \<Rightarrow> 'w \<Rightarrow> error option \<times> 'w"

text \<open>
  The \<^verbatim>\<open>context.Context\<close> matters at one place only, the wait between two polls:
  waiting in world \<open>w\<close> ends either because the context is done (\<open>True\<close>) or because
  the interval timer fired (\<open>False\<close>), and in the meantime every other actor on the
  store has had its turn, which is the world returned.
\<close>

type_synonym 'w Context = "'w \<Rightarrow> bool \<times> 'w"

section \<open>Constants\<close>

definition bootstrapSecretBackupSuffix :: string where
  "bootstrapSecretBackupSuffix = ''-backup''"

text \<open>
  \<^verbatim>\<open>constants.ManagedClusterMigrating\<close> is declared in \<^verbatim>\<open>pkg/constants\<close>; the other
  annotation key is a literal of the syncer.
\<close>

definition ManagedClusterMigrating :: string where
  "ManagedClusterMigrating = ''global-hub.open-cluster-management.io/migrating''"

definition KlusterletConfigAnnotation :: string where
  "KlusterletConfigAnnotation = ''agent.open-cluster-management.io/klusterlet-config''"

definition ManagedClusterConditionAvailable :: string where
  "ManagedClusterConditionAvailable = ''ManagedClusterConditionAvailable''"

definition ConditionUnknown :: string where
  "ConditionUnknown = ''Unknown''"

section \<open>Library functions the syncer calls\<close>

text \<open>
  \<^verbatim>\<open>meta.IsStatusConditionPresentAndEqual\<close>: the first condition of the given type
  decides; without one the answer is false.
\<close>

fun IsStatusConditionPresentAndEqual :: "Condition list \<Rightarrow> string \<Rightarrow> string \<Rightarrow> bool" where
  "IsStatusConditionPresentAndEqual [] conditionType status = False"
| "IsStatusConditionPresentAndEqual (condition # conditions) conditionType status =
     (if cond_Type condition = conditionType then cond_Status condition = status
      else IsStatusConditionPresentAndEqual conditions conditionType status)"

text \<open>
  \<^verbatim>\<open>wait.PollUntilContextCancel(ctx, interval, true, condition)\<close>. With
  \<^verbatim>\<open>immediate = true\<close> the condition runs once before any wait. Then the loop waits
  for the timer or the context; a done context ends it with the context's error, and
  otherwise the condition runs again. An error or \<^verbatim>\<open>true\<close> from the condition ends
  the loop. Nothing bounds the number of rounds, so the result is an option and
  \<open>None\<close> is a loop that never ends.
\<close>

partial_function (option) pollLoop ::
  "'w Context \<Rightarrow> ('w \<Rightarrow> (error + bool) \<times> 'w) \<Rightarrow> 'w \<Rightarrow> (error option \<times> 'w) option" where
  "pollLoop ctx condition w =
     (case ctx w of (done, w1) \<Rightarrow>
        if done then Some (Some ContextCanceled, w1)
        else (case condition w1 of (r, w2) \<Rightarrow>
                (case r of
                   Inl err \<Rightarrow> Some (Some err, w2)
                 | Inr ok \<Rightarrow> if ok then Some (None, w2) else pollLoop ctx condition w2)))"

definition PollUntilContextCancel ::
  "'w Context \<Rightarrow> ('w \<Rightarrow> (error + bool) \<times> 'w) \<Rightarrow> 'w \<Rightarrow> (error option \<times> 'w) option" where
  "PollUntilContextCancel ctx condition w =
     (case condition w of
        (Inl err, w1) \<Rightarrow> Some (Some err, w1)
      | (Inr True, w1) \<Rightarrow> Some (None, w1)
      | (Inr False, w1) \<Rightarrow> pollLoop ctx condition w1)"

section \<open>The syncer\<close>

text \<open>
  \<^verbatim>\<open>Sync\<close> is one long function; its comments cut it into the stages below, each
  of which is translated on its own and then chained by \<open>Sync\<close>. The calls of the
  logger change nothing that is modelled and are left out.
\<close>

text \<open>Lines 48 to 70: create or update the bootstrap secret.\<close>

definition syncBootstrapSecret :: "'w Client \<Rightarrow> Secret \<Rightarrow> 'w \<Rightarrow> (error + Secret) \<times> 'w" where
  "syncBootstrapSecret s bootstrapSecret w =
     (case GetSecret s (secret_Name bootstrapSecret) (secret_Namespace bootstrapSecret) w of
        (Inl err, w1) \<Rightarrow>
          (if IsNotFound err then CreateSecret s bootstrapSecret w1 else (Inl err, w1))
      | (Inr foundBootstrapSecret, w1) \<Rightarrow> UpdateSecret s bootstrapSecret w1)"

text \<open>
  Lines 72 to 100: the backup is built from the bootstrap secret held in memory and
  goes through the same create-or-update.
\<close>

definition syncBootstrapSecretBackup :: "'w Client \<Rightarrow> Secret \<Rightarrow> 'w \<Rightarrow> (error + Secret) \<times> 'w" where
  "syncBootstrapSecretBackup s bootstrapSecret w =
     (let bootstrapSecretBackup =
            \<lparr> secret_Name = secret_Name bootstrapSecret @ bootstrapSecretBackupSuffix,
              secret_Namespace = secret_Namespace bootstrapSecret,
              secret_Data = secret_Data bootstrapSecret \<rparr>
      in case GetSecret s (secret_Name bootstrapSecretBackup)
                (secret_Namespace bootstrapSecretBackup) w of
           (Inl err, w1) \<Rightarrow>
             (if IsNotFound err then CreateSecret s bootstrapSecretBackup w1 else (Inl err, w1))
         | (Inr foundBootstrapSecretBackup, w1) \<Rightarrow> UpdateSecret s bootstrapSecretBackup w1)"

text \<open>
  Lines 102 to 126: the secret list of the event's klusterlet config is overwritten in
  memory, and the config is created when the store has none of that name. A config
  that is found is left as it is.
\<close>

definition syncKlusterletConfig ::
  "'w Client \<Rightarrow> KlusterletConfig \<Rightarrow> Secret \<Rightarrow> Secret \<Rightarrow> 'w \<Rightarrow> (error + KlusterletConfig) \<times> 'w" where
  "syncKlusterletConfig s eventKlusterletConfig bootstrapSecret bootstrapSecretBackup w =
     (let klusterletConfig = eventKlusterletConfig
            \<lparr> kc_KubeConfigSecrets :=
                [secret_Name bootstrapSecret, secret_Name bootstrapSecretBackup] \<rparr>
      in case GetKlusterletConfig s (kc_Name klusterletConfig) w of
           (Inl err, w1) \<Rightarrow>
             (if IsNotFound err then CreateKlusterletConfig s klusterletConfig w1
              else (Inl err, w1))
         | (Inr foundKlusterletConfig, w1) \<Rightarrow> (Inr klusterletConfig, w1))"

text \<open>
  Lines 137 to 143: the annotations of a fetched cluster, an absent map read as the
  empty one, and the test that lets the loop skip a cluster. Reading a missing key of
  a Go map gives the empty string.
\<close>

definition annotationsOf :: "ManagedCluster \<Rightarrow> (string \<rightharpoonup> string)" where
  "annotationsOf mcl = (case mc_Annotations mcl of None \<Rightarrow> Map.empty | Some a \<Rightarrow> a)"

definition alreadyMigrating :: "ManagedCluster \<Rightarrow> string \<Rightarrow> bool" where
  "alreadyMigrating mcl klusterletConfigName =
     (let annotations = annotationsOf mcl;
          migrating = (annotations ManagedClusterMigrating \<noteq> None)
      in migrating \<and>
         (case annotations KlusterletConfigAnnotation of None \<Rightarrow> [] | Some v \<Rightarrow> v)
           = klusterletConfigName)"

text \<open>Lines 146 to 148: the two annotations are set and put back on the cluster.\<close>

definition setMigrating :: "ManagedCluster \<Rightarrow> string \<Rightarrow> ManagedCluster" where
  "setMigrating mcl klusterletConfigName =
     mcl \<lparr> mc_Annotations :=
       Some ((annotationsOf mcl)
               (KlusterletConfigAnnotation \<mapsto> klusterletConfigName,
                ManagedClusterMigrating \<mapsto> [])) \<rparr>"

text \<open>Lines 128 to 152: the loop over the cluster names.\<close>

fun annotateManagedClusters ::
  "'w Client \<Rightarrow> string \<Rightarrow> string list \<Rightarrow> 'w \<Rightarrow> error option \<times> 'w" where
  "annotateManagedClusters s klusterletConfigName [] w = (None, w)"
| "annotateManagedClusters s klusterletConfigName (managedCluster # managedClusters) w =
     (case GetManagedCluster s managedCluster w of
        (Inl err, w1) \<Rightarrow> (Some err, w1)
      | (Inr mcl, w1) \<Rightarrow>
          if alreadyMigrating mcl klusterletConfigName
          then annotateManagedClusters s klusterletConfigName managedClusters w1
          else (case UpdateManagedCluster s (setMigrating mcl klusterletConfigName) w1 of
                  (Inl err, w2) \<Rightarrow> (Some err, w2)
                | (Inr updated, w2) \<Rightarrow>
                    annotateManagedClusters s klusterletConfigName managedClusters w2))"

text \<open>
  Lines 164 to 184: the function handed to the poll, one pass over the cluster names.
  \<open>Inr True\<close> is \<^verbatim>\<open>(true, nil)\<close>, \<open>Inr False\<close> is \<^verbatim>\<open>(false, nil)\<close> and \<open>Inl err\<close> is
  \<^verbatim>\<open>(false, err)\<close>.
\<close>

fun detachCondition :: "'w Client \<Rightarrow> string list \<Rightarrow> 'w \<Rightarrow> (error + bool) \<times> 'w" where
  "detachCondition s [] w = (Inr True, w)"
| "detachCondition s (managedCluster # managedClusters) w =
     (case GetManagedCluster s managedCluster w of
        (Inl err, w1) \<Rightarrow>
          (if IsNotFound err then detachCondition s managedClusters w1 else (Inl err, w1))
      | (Inr mcl, w1) \<Rightarrow>
          if IsStatusConditionPresentAndEqual (mc_Conditions mcl)
               ManagedClusterConditionAvailable ConditionUnknown
          then (case DeleteManagedCluster s mcl w1 of
                  (Some err, w2) \<Rightarrow> (Inl err, w2)
                | (None, w2) \<Rightarrow> detachCondition s managedClusters w2)
          else (Inr False, w1))"

text \<open>Lines 162 to 186.\<close>

definition detachManagedClusters ::
  "'w Client \<Rightarrow> 'w Context \<Rightarrow> string list \<Rightarrow> 'w \<Rightarrow> (error option \<times> 'w) option" where
  "detachManagedClusters s ctx managedClusters w =
     PollUntilContextCancel ctx (detachCondition s managedClusters) w"

text \<open>
  Lines 41 to 152: everything \<open>Sync\<close> does before it calls the detachment. The result
  is \<open>Inl\<close> when \<open>Sync\<close> ends there, by returning an error or by a nil pointer, and
  \<open>Inr\<close> with the cluster names when line 155 is reached. \<^verbatim>\<open>json.Unmarshal\<close> is a
  parameter.
\<close>

definition prepareMigration ::
  "'w Client \<Rightarrow> (bytes \<Rightarrow> error + Event) \<Rightarrow> bytes \<Rightarrow> 'w \<Rightarrow> (outcome + string list) \<times> 'w" where
  "prepareMigration s unmarshal payload w =
     (case unmarshal payload of
        Inl err \<Rightarrow> (Inl (Returned (Some err)), w)
      | Inr managedClusterMigrationEvent \<Rightarrow>
     (case ev_BootstrapSecret managedClusterMigrationEvent of
        None \<Rightarrow> (Inl Panicked, w)
      | Some eventBootstrapSecret \<Rightarrow>
     (case syncBootstrapSecret s eventBootstrapSecret w of
        (Inl err, w1) \<Rightarrow> (Inl (Returned (Some err)), w1)
      | (Inr bootstrapSecret, w1) \<Rightarrow>
     (case syncBootstrapSecretBackup s bootstrapSecret w1 of
        (Inl err, w2) \<Rightarrow> (Inl (Returned (Some err)), w2)
      | (Inr bootstrapSecretBackup, w2) \<Rightarrow>
     (case ev_KlusterletConfig managedClusterMigrationEvent of
        None \<Rightarrow> (Inl Panicked, w2)
      | Some eventKlusterletConfig \<Rightarrow>
     (case syncKlusterletConfig s eventKlusterletConfig bootstrapSecret
             bootstrapSecretBackup w2 of
        (Inl err, w3) \<Rightarrow> (Inl (Returned (Some err)), w3)
      | (Inr klusterletConfig, w3) \<Rightarrow>
     (case annotateManagedClusters s (kc_Name klusterletConfig)
             (ev_ManagedClusters managedClusterMigrationEvent) w3 of
        (Some err, w4) \<Rightarrow> (Inl (Returned (Some err)), w4)
      | (None, w4) \<Rightarrow> (Inr (ev_ManagedClusters managedClusterMigrationEvent), w4))))))))"

text \<open>
  Lines 154 to 159: the error of the detachment is logged and \<^verbatim>\<open>nil\<close> is returned.
  \<open>Sync\<close> returns only if the detachment does.
\<close>

definition Sync ::
  "'w Client \<Rightarrow> (bytes \<Rightarrow> error + Event) \<Rightarrow> 'w Context \<Rightarrow> bytes \<Rightarrow> 'w \<Rightarrow> (outcome \<times> 'w) option" where
  "Sync s unmarshal ctx payload w =
     (case prepareMigration s unmarshal payload w of
        (Inl out, w1) \<Rightarrow> Some (out, w1)
      | (Inr managedClusters, w1) \<Rightarrow>
          (case detachManagedClusters s ctx managedClusters w1 of
             None \<Rightarrow> None
           | Some (err, w2) \<Rightarrow> Some (Returned None, w2)))"

section \<open>Two clients\<close>

subsection \<open>An in-memory store\<close>

text \<open>
  The resource store is not part of the syncer. For the properties that depend on
  what the store does with a call, the store is the plain in-memory one of the
  interface description: \<^verbatim>\<open>get\<close> answers with the object or NotFound, \<^verbatim>\<open>create\<close>
  adds an object unless one of that key exists, \<^verbatim>\<open>update\<close> replaces an existing
  object, \<^verbatim>\<open>delete\<close> removes it, and the object handed to \<^verbatim>\<open>create\<close> or \<^verbatim>\<open>update\<close>
  comes back unchanged.
\<close>

record World =
  w_Secrets :: "Secret list"
  w_KlusterletConfigs :: "KlusterletConfig list"
  w_ManagedClusters :: "ManagedCluster list"

definition isSecret :: "string \<Rightarrow> string \<Rightarrow> Secret \<Rightarrow> bool" where
  "isSecret name namespace x = (secret_Name x = name \<and> secret_Namespace x = namespace)"

definition memGetSecret :: "string \<Rightarrow> string \<Rightarrow> World \<Rightarrow> (error + Secret) \<times> World" where
  "memGetSecret name namespace w =
     (case find (isSecret name namespace) (w_Secrets w) of
        None \<Rightarrow> (Inl NotFound, w)
      | Some x \<Rightarrow> (Inr x, w))"

definition memCreateSecret :: "Secret \<Rightarrow> World \<Rightarrow> (error + Secret) \<times> World" where
  "memCreateSecret obj w =
     (case find (isSecret (secret_Name obj) (secret_Namespace obj)) (w_Secrets w) of
        None \<Rightarrow> (Inr obj, w \<lparr> w_Secrets := w_Secrets w @ [obj] \<rparr>)
      | Some x \<Rightarrow> (Inl AlreadyExists, w))"

definition memUpdateSecret :: "Secret \<Rightarrow> World \<Rightarrow> (error + Secret) \<times> World" where
  "memUpdateSecret obj w =
     (case find (isSecret (secret_Name obj) (secret_Namespace obj)) (w_Secrets w) of
        None \<Rightarrow> (Inl NotFound, w)
      | Some x \<Rightarrow>
          (Inr obj,
           w \<lparr> w_Secrets :=
                 map (\<lambda>y. if isSecret (secret_Name obj) (secret_Namespace obj) y then obj else y)
                   (w_Secrets w) \<rparr>))"

definition memGetKlusterletConfig ::
  "string \<Rightarrow> World \<Rightarrow> (error + KlusterletConfig) \<times> World" where
  "memGetKlusterletConfig name w =
     (case find (\<lambda>x. kc_Name x = name) (w_KlusterletConfigs w) of
        None \<Rightarrow> (Inl NotFound, w)
      | Some x \<Rightarrow> (Inr x, w))"

definition memCreateKlusterletConfig ::
  "KlusterletConfig \<Rightarrow> World \<Rightarrow> (error + KlusterletConfig) \<times> World" where
  "memCreateKlusterletConfig obj w =
     (case find (\<lambda>x. kc_Name x = kc_Name obj) (w_KlusterletConfigs w) of
        None \<Rightarrow> (Inr obj, w \<lparr> w_KlusterletConfigs := w_KlusterletConfigs w @ [obj] \<rparr>)
      | Some x \<Rightarrow> (Inl AlreadyExists, w))"

definition memGetManagedCluster ::
  "string \<Rightarrow> World \<Rightarrow> (error + ManagedCluster) \<times> World" where
  "memGetManagedCluster name w =
     (case find (\<lambda>x. mc_Name x = name) (w_ManagedClusters w) of
        None \<Rightarrow> (Inl NotFound, w)
      | Some x \<Rightarrow> (Inr x, w))"

definition memUpdateManagedCluster ::
  "ManagedCluster \<Rightarrow> World \<Rightarrow> (error + ManagedCluster) \<times> World" where
  "memUpdateManagedCluster obj w =
     (case find (\<lambda>x. mc_Name x = mc_Name obj) (w_ManagedClusters w) of
        None \<Rightarrow> (Inl NotFound, w)
      | Some x \<Rightarrow>
          (Inr obj,
           w \<lparr> w_ManagedClusters :=
                 map (\<lambda>y. if mc_Name y = mc_Name obj then obj else y) (w_ManagedClusters w) \<rparr>))"

definition memDeleteManagedCluster :: "ManagedCluster \<Rightarrow> World \<Rightarrow> error option \<times> World" where
  "memDeleteManagedCluster obj w =
     (case find (\<lambda>x. mc_Name x = mc_Name obj) (w_ManagedClusters w) of
        None \<Rightarrow> (Some NotFound, w)
      | Some x \<Rightarrow>
          (None,
           w \<lparr> w_ManagedClusters :=
                 filter (\<lambda>y. mc_Name y \<noteq> mc_Name obj) (w_ManagedClusters w) \<rparr>))"

definition memClient :: "World Client" where
  "memClient =
     \<lparr> GetSecret = memGetSecret,
       CreateSecret = memCreateSecret,
       UpdateSecret = memUpdateSecret,
       GetKlusterletConfig = memGetKlusterletConfig,
       CreateKlusterletConfig = memCreateKlusterletConfig,
       GetManagedCluster = memGetManagedCluster,
       UpdateManagedCluster = memUpdateManagedCluster,
       DeleteManagedCluster = memDeleteManagedCluster \<rparr>"

text \<open>The names of the clusters a world holds.\<close>

definition clusterNames :: "World \<Rightarrow> string set" where
  "clusterNames w = mc_Name ` set (w_ManagedClusters w)"

subsection \<open>A client that records its calls\<close>

text \<open>
  To speak of the calls the syncer issues, any client can be wrapped so that each
  call is appended to a log kept beside the world.
\<close>

datatype call =
    CallGetSecret string string
  | CallCreateSecret Secret
  | CallUpdateSecret Secret
  | CallGetKlusterletConfig string
  | CallCreateKlusterletConfig KlusterletConfig
  | CallGetManagedCluster string
  | CallUpdateManagedCluster ManagedCluster
  | CallDeleteManagedCluster ManagedCluster

definition logging :: "call \<Rightarrow> ('w \<Rightarrow> 'r \<times> 'w) \<Rightarrow> 'w \<times> call list \<Rightarrow> 'r \<times> ('w \<times> call list)" where
  "logging c f = (\<lambda>(w, l). case f w of (r, w1) \<Rightarrow> (r, (w1, l @ [c])))"

definition recording :: "'w Client \<Rightarrow> ('w \<times> call list) Client" where
  "recording s =
     \<lparr> GetSecret = (\<lambda>name namespace. logging (CallGetSecret name namespace) (GetSecret s name namespace)),
       CreateSecret = (\<lambda>obj. logging (CallCreateSecret obj) (CreateSecret s obj)),
       UpdateSecret = (\<lambda>obj. logging (CallUpdateSecret obj) (UpdateSecret s obj)),
       GetKlusterletConfig = (\<lambda>name. logging (CallGetKlusterletConfig name) (GetKlusterletConfig s name)),
       CreateKlusterletConfig =
         (\<lambda>obj. logging (CallCreateKlusterletConfig obj) (CreateKlusterletConfig s obj)),
       GetManagedCluster = (\<lambda>name. logging (CallGetManagedCluster name) (GetManagedCluster s name)),
       UpdateManagedCluster =
         (\<lambda>obj. logging (CallUpdateManagedCluster obj) (UpdateManagedCluster s obj)),
       DeleteManagedCluster =
         (\<lambda>obj. logging (CallDeleteManagedCluster obj) (DeleteManagedCluster s obj)) \<rparr>"

text \<open>
  A world in which the named cluster exists and its status carries no condition of
  the Availability type.
\<close>

definition hasNoAvailability :: "string \<Rightarrow> World \<Rightarrow> bool" where
  "hasNoAvailability name w =
     (case find (\<lambda>x. mc_Name x = name) (w_ManagedClusters w) of
        None \<Rightarrow> False
      | Some mcl \<Rightarrow>
          find (\<lambda>c. cond_Type c = ManagedClusterConditionAvailable) (mc_Conditions mcl) = None)"

text \<open>
  A world in which the named cluster exists and already carries both annotations for
  the given klusterlet config.
\<close>

definition isAnnounced :: "string \<Rightarrow> string \<Rightarrow> World \<Rightarrow> bool" where
  "isAnnounced klusterletConfigName name w =
     (case find (\<lambda>x. mc_Name x = name) (w_ManagedClusters w) of
        None \<Rightarrow> False
      | Some mcl \<Rightarrow> alreadyMigrating mcl klusterletConfigName)"

text \<open>The names of the clusters fetched according to a log, in the order of the calls.\<close>

fun fetched :: "call list \<Rightarrow> string list" where
  "fetched [] = []"
| "fetched (CallGetManagedCluster name # l) = name # fetched l"
| "fetched (c # l) = fetched l"

section \<open>Concrete objects, worlds, clients and contexts\<close>

text \<open>The instruction used in the examples, and a stale copy of its secret.\<close>

definition exSecret :: Secret where
  "exSecret =
     \<lparr> secret_Name = ''bootstrap-hub2'', secret_Namespace = ''multicluster-engine'',
       secret_Data = [''kubeconfig'' \<mapsto> [1, 2, 3]] \<rparr>"

definition exStaleSecret :: Secret where
  "exStaleSecret =
     \<lparr> secret_Name = ''bootstrap-hub2'', secret_Namespace = ''multicluster-engine'',
       secret_Data = [''kubeconfig'' \<mapsto> [9]] \<rparr>"

definition exBackupSecret :: Secret where
  "exBackupSecret =
     \<lparr> secret_Name = ''bootstrap-hub2-backup'', secret_Namespace = ''multicluster-engine'',
       secret_Data = [''kubeconfig'' \<mapsto> [1, 2, 3]] \<rparr>"

definition exConfig :: KlusterletConfig where
  "exConfig = \<lparr> kc_Name = ''migration-hub2'', kc_KubeConfigSecrets = [] \<rparr>"

definition exProvisionedConfig :: KlusterletConfig where
  "exProvisionedConfig =
     \<lparr> kc_Name = ''migration-hub2'',
       kc_KubeConfigSecrets = [''bootstrap-hub2'', ''bootstrap-hub2-backup''] \<rparr>"

definition exForeignConfig :: KlusterletConfig where
  "exForeignConfig = \<lparr> kc_Name = ''migration-hub2'', kc_KubeConfigSecrets = [''other''] \<rparr>"

text \<open>Clusters by name: reachable, lost, with no condition at all, and announced.\<close>

definition availableCluster :: "string \<Rightarrow> ManagedCluster" where
  "availableCluster name =
     \<lparr> mc_Name = name, mc_Annotations = None,
       mc_Conditions =
         [\<lparr> cond_Type = ''ManagedClusterConditionAvailable'', cond_Status = ''True'' \<rparr>] \<rparr>"

definition unknownCluster :: "string \<Rightarrow> ManagedCluster" where
  "unknownCluster name =
     \<lparr> mc_Name = name, mc_Annotations = None,
       mc_Conditions =
         [\<lparr> cond_Type = ''ManagedClusterConditionAvailable'', cond_Status = ''Unknown'' \<rparr>] \<rparr>"

definition bareCluster :: "string \<Rightarrow> ManagedCluster" where
  "bareCluster name = \<lparr> mc_Name = name, mc_Annotations = None, mc_Conditions = [] \<rparr>"

definition announcedCluster :: "string \<Rightarrow> ManagedCluster" where
  "announcedCluster name =
     \<lparr> mc_Name = name,
       mc_Annotations =
         Some [''agent.open-cluster-management.io/klusterlet-config'' \<mapsto> ''migration-hub2'',
               ''global-hub.open-cluster-management.io/migrating'' \<mapsto> []],
       mc_Conditions =
         [\<lparr> cond_Type = ''ManagedClusterConditionAvailable'', cond_Status = ''True'' \<rparr>] \<rparr>"

definition worldOf :: "ManagedCluster list \<Rightarrow> World" where
  "worldOf clusters =
     \<lparr> w_Secrets = [], w_KlusterletConfigs = [], w_ManagedClusters = clusters \<rparr>"

definition exEvent :: "string list \<Rightarrow> Event" where
  "exEvent names =
     \<lparr> ev_BootstrapSecret = Some exSecret, ev_KlusterletConfig = Some exConfig,
       ev_ManagedClusters = names \<rparr>"

definition exUnmarshal :: "string list \<Rightarrow> bytes \<Rightarrow> error + Event" where
  "exUnmarshal names payload = Inr (exEvent names)"

text \<open>A context that is never cancelled, and one that is already done at the first wait.\<close>

definition neverDone :: "'w Context" where
  "neverDone w = (False, w)"

definition doneAtOnce :: "'w Context" where
  "doneAtOnce w = (True, w)"




text \<open>The in-memory store with a delete that the server refuses.\<close>

definition refusingClient :: "World Client" where
  "refusingClient =
     memClient \<lparr> DeleteManagedCluster := (\<lambda>obj w. (Some (StoreError ''forbidden''), w)) \<rparr>"

text \<open>Worlds that hold only secrets, only configs, or what a finished preparation leaves.\<close>

definition secretWorld :: "Secret list \<Rightarrow> World" where
  "secretWorld secrets = \<lparr> w_Secrets = secrets, w_KlusterletConfigs = [], w_ManagedClusters = [] \<rparr>"

definition configWorld :: "KlusterletConfig list \<Rightarrow> World" where
  "configWorld configs = \<lparr> w_Secrets = [], w_KlusterletConfigs = configs, w_ManagedClusters = [] \<rparr>"

definition exPreparedWorld :: "ManagedCluster list \<Rightarrow> World" where
  "exPreparedWorld clusters =
     \<lparr> w_Secrets = [exSecret, exBackupSecret], w_KlusterletConfigs = [exProvisionedConfig],
       w_ManagedClusters = clusters \<rparr>"

text \<open>A cluster that is announced and that the hub has lost contact with.\<close>

definition announcedUnknownCluster :: "string \<Rightarrow> ManagedCluster" where
  "announcedUnknownCluster name =
     \<lparr> mc_Name = name,
       mc_Annotations =
         Some [''agent.open-cluster-management.io/klusterlet-config'' \<mapsto> ''migration-hub2'',
               ''global-hub.open-cluster-management.io/migrating'' \<mapsto> []],
       mc_Conditions =
         [\<lparr> cond_Type = ''ManagedClusterConditionAvailable'', cond_Status = ''Unknown'' \<rparr>] \<rparr>"

section \<open>Basic facts\<close>

subsection \<open>Constants and lists\<close>

lemma const_simps:
  "bootstrapSecretBackupSuffix = ''-backup''"
  "ManagedClusterMigrating = ''global-hub.open-cluster-management.io/migrating''"
  "KlusterletConfigAnnotation = ''agent.open-cluster-management.io/klusterlet-config''"
  by (simp_all add: bootstrapSecretBackupSuffix_def ManagedClusterMigrating_def
        KlusterletConfigAnnotation_def)

lemma ex_simps:
  "ManagedClusterConditionAvailable = ''ManagedClusterConditionAvailable''"
  "ConditionUnknown = ''Unknown''"
  by (simp_all add: ManagedClusterConditionAvailable_def ConditionUnknown_def)

lemma keys_differ: "KlusterletConfigAnnotation \<noteq> ManagedClusterMigrating"
  by (simp add: KlusterletConfigAnnotation_def ManagedClusterMigrating_def)

lemma find_SomeD: "find P xs = Some x \<Longrightarrow> P x \<and> x \<in> set xs"
  by (induction xs) (auto split: if_splits)

lemma find_append_one:
  "find Q (xs @ [x]) = (case find Q xs of Some y \<Rightarrow> Some y | None \<Rightarrow> if Q x then Some x else None)"
  by (induction xs) auto

lemma find_map_replace:
  "P x \<Longrightarrow> find P (map (\<lambda>y. if P y then x else y) xs) = (case find P xs of None \<Rightarrow> None | Some y \<Rightarrow> Some x)"
  by (induction xs) auto

lemma find_map_replace_other:
  "\<not> Q x \<Longrightarrow> (\<And>y. Q y \<Longrightarrow> \<not> P y) \<Longrightarrow>
   find Q (map (\<lambda>y. if P y then x else y) xs) = find Q xs"
  by (induction xs) auto

lemma find_filter_other:
  "k \<noteq> n \<Longrightarrow>
   find (\<lambda>x. mc_Name x = n) (filter (\<lambda>y. mc_Name y \<noteq> k) xs) = find (\<lambda>x. mc_Name x = n) xs"
  by (induction xs) auto

lemma absent_condition_not_equal:
  "find (\<lambda>c. cond_Type c = t) conds = None \<Longrightarrow> \<not> IsStatusConditionPresentAndEqual conds t st"
  by (induction conds) (auto split: if_splits)

lemma fetched_append: "fetched (l @ l') = fetched l @ fetched l'"
  by (induction l rule: fetched.induct) simp_all

subsection \<open>The two loops over the cluster names\<close>

lemma detachCondition_append:
  "detachCondition s (xs @ ys) w =
     (case detachCondition s xs w of
        (Inr True, w1) \<Rightarrow> detachCondition s ys w1
      | (Inr False, w1) \<Rightarrow> (Inr False, w1)
      | (Inl err, w1) \<Rightarrow> (Inl err, w1))"
  by (induction xs arbitrary: w) (auto split: prod.splits sum.splits option.splits)

lemma annotateManagedClusters_append:
  "annotateManagedClusters s cfg (xs @ ys) w =
     (case annotateManagedClusters s cfg xs w of
        (None, w1) \<Rightarrow> annotateManagedClusters s cfg ys w1
      | (Some err, w1) \<Rightarrow> (Some err, w1))"
  by (induction xs arbitrary: w) (auto split: prod.splits sum.splits option.splits)

subsection \<open>The poll\<close>

text \<open>
  How a poll that has returned came to its result, for polls that keep an invariant of
  the world.
\<close>

lemma detachManagedClusters_first:
  "detachManagedClusters s ctx names w =
     (case detachCondition s names w of
        (Inl err, w1) \<Rightarrow> Some (Some err, w1)
      | (Inr True, w1) \<Rightarrow> Some (None, w1)
      | (Inr False, w1) \<Rightarrow> pollLoop ctx (detachCondition s names) w1)"
  by (simp add: detachManagedClusters_def PollUntilContextCancel_def)

lemma pollLoop_next:
  "pollLoop ctx (detachCondition s names) w =
     (case ctx w of
        (True, w1) \<Rightarrow> Some (Some ContextCanceled, w1)
      | (False, w1) \<Rightarrow> detachManagedClusters s ctx names w1)"
  by (subst pollLoop.simps)
     (simp add: detachManagedClusters_def PollUntilContextCancel_def
           split: prod.splits sum.splits bool.splits)

lemma poll_result_inv:
  assumes "pollLoop ctx condition w = Some res"
    and "I w"
    and "\<And>v. I v \<Longrightarrow> I (snd (ctx v))"
    and "\<And>v. I v \<Longrightarrow> I (snd (condition v))"
  shows "I (snd res) \<and>
        ((fst res = None \<and> (\<exists>v. I v \<and> condition v = (Inr True, snd res)))
       \<or> (\<exists>err. fst res = Some err \<and> (\<exists>v. I v \<and> condition v = (Inl err, snd res)))
       \<or> (fst res = Some ContextCanceled \<and> ctx w = (True, snd res))
       \<or> (fst res = Some ContextCanceled \<and>
            (\<exists>u v. I u \<and> condition u = (Inr False, v) \<and> ctx v = (True, snd res))))"
proof -
  let ?P = "\<lambda>c d w res.
       (\<forall>v. I v \<longrightarrow> I (snd (c v))) \<longrightarrow> (\<forall>v. I v \<longrightarrow> I (snd (d v))) \<longrightarrow> I w \<longrightarrow>
       I (snd res) \<and>
       ((fst res = None \<and> (\<exists>v. I v \<and> d v = (Inr True, snd res)))
     \<or> (\<exists>err. fst res = Some err \<and> (\<exists>v. I v \<and> d v = (Inl err, snd res)))
     \<or> (fst res = Some ContextCanceled \<and> c w = (True, snd res))
     \<or> (fst res = Some ContextCanceled \<and>
          (\<exists>u v. I u \<and> d u = (Inr False, v) \<and> c v = (True, snd res))))"
  have "?P ctx condition w res"
  proof (rule pollLoop.raw_induct[where P = ?P, OF _ assms(1)], goal_cases)
    case (1 f c d w res)
    show ?case
    proof (intro impI)
      assume c_inv: "\<forall>v. I v \<longrightarrow> I (snd (c v))"
        and d_inv: "\<forall>v. I v \<longrightarrow> I (snd (d v))"
        and Iw: "I w"
      obtain fin w1 where ctxw: "c w = (fin, w1)" by (cases "c w")
      from c_inv Iw ctxw have Iw1: "I w1" by (metis snd_conv)
      obtain r w2 where dw: "d w1 = (r, w2)" by (cases "d w1")
      from d_inv Iw1 dw have Iw2: "I w2" by (metis snd_conv)
      show "I (snd res) \<and>
       ((fst res = None \<and> (\<exists>v. I v \<and> d v = (Inr True, snd res)))
     \<or> (\<exists>err. fst res = Some err \<and> (\<exists>v. I v \<and> d v = (Inl err, snd res)))
     \<or> (fst res = Some ContextCanceled \<and> c w = (True, snd res))
     \<or> (fst res = Some ContextCanceled \<and>
          (\<exists>u v. I u \<and> d u = (Inr False, v) \<and> c v = (True, snd res))))"
      proof (cases fin)
        case True
        with 1(2) ctxw Iw1 show ?thesis by auto
      next
        case False
        show ?thesis
        proof (cases r)
          case (Inl err)
          with 1(2) ctxw False dw Iw1 Iw2 show ?thesis by auto
        next
          case (Inr ok)
          show ?thesis
          proof (cases ok)
            case True
            with 1(2) ctxw False dw Inr Iw1 Iw2 show ?thesis by auto
          next
            case nok: False
            with 1(2) ctxw False dw Inr have "f c d w2 = Some res" by simp
            from 1(1)[OF this] c_inv d_inv Iw2
            have ih: "I (snd res) \<and>
             ((fst res = None \<and> (\<exists>v. I v \<and> d v = (Inr True, snd res)))
             \<or> (\<exists>err. fst res = Some err \<and> (\<exists>v. I v \<and> d v = (Inl err, snd res)))
             \<or> (fst res = Some ContextCanceled \<and> c w2 = (True, snd res))
             \<or> (fst res = Some ContextCanceled \<and>
                (\<exists>u v. I u \<and> d u = (Inr False, v) \<and> c v = (True, snd res))))"
              by blast
            from dw Inr nok have "d w1 = (Inr False, w2)" by simp
            with ih Iw1 show ?thesis by blast
          qed
        qed
      qed
    qed
  qed
  with assms(2-4) show ?thesis by blast
qed

lemma detach_result_inv:
  assumes "detachManagedClusters s ctx names w = Some res"
    and "I w"
    and "\<And>v. I v \<Longrightarrow> I (snd (ctx v))"
    and "\<And>v. I v \<Longrightarrow> I (snd (detachCondition s names v))"
  shows "I (snd res) \<and>
        ((fst res = None \<and> (\<exists>v. I v \<and> detachCondition s names v = (Inr True, snd res)))
       \<or> (\<exists>err. fst res = Some err \<and> (\<exists>v. I v \<and> detachCondition s names v = (Inl err, snd res)))
       \<or> (fst res = Some ContextCanceled \<and>
            (\<exists>u v. I u \<and> detachCondition s names u = (Inr False, v) \<and> ctx v = (True, snd res))))"
proof -
  obtain r w1 where first: "detachCondition s names w = (r, w1)"
    by (cases "detachCondition s names w")
  from assms(2,4) first have Iw1: "I w1" by (metis snd_conv)
  show ?thesis
  proof (cases r)
    case (Inl err)
    with assms(1) first have "res = (Some err, w1)"
      by (simp add: detachManagedClusters_first)
    with Inl first assms(2) Iw1 show ?thesis by auto
  next
    case (Inr ok)
    show ?thesis
    proof (cases ok)
      case True
      with assms(1) first Inr have "res = (None, w1)"
        by (simp add: detachManagedClusters_first)
      with True Inr first assms(2) Iw1 show ?thesis by auto
    next
      case False
      with assms(1) first Inr have "pollLoop ctx (detachCondition s names) w1 = Some res"
        by (simp add: detachManagedClusters_first)
      from poll_result_inv[where I = I, OF this Iw1 assms(3) assms(4)]
      have p: "I (snd res) \<and>
        ((fst res = None \<and> (\<exists>v. I v \<and> detachCondition s names v = (Inr True, snd res)))
       \<or> (\<exists>err. fst res = Some err \<and> (\<exists>v. I v \<and> detachCondition s names v = (Inl err, snd res)))
       \<or> (fst res = Some ContextCanceled \<and> ctx w1 = (True, snd res))
       \<or> (fst res = Some ContextCanceled \<and>
            (\<exists>u v. I u \<and> detachCondition s names u = (Inr False, v) \<and> ctx v = (True, snd res))))"
        by blast
      from first Inr False have "detachCondition s names w = (Inr False, w1)" by simp
      with p assms(2) show ?thesis by blast
    qed
  qed
qed

subsection \<open>The recording client\<close>

lemma recording_simps:
  "GetSecret (recording s) name namespace (w, l) =
     (case GetSecret s name namespace w of (r, w1) \<Rightarrow> (r, (w1, l @ [CallGetSecret name namespace])))"
  "CreateSecret (recording s) sec (w, l) =
     (case CreateSecret s sec w of (r, w1) \<Rightarrow> (r, (w1, l @ [CallCreateSecret sec])))"
  "UpdateSecret (recording s) sec (w, l) =
     (case UpdateSecret s sec w of (r, w1) \<Rightarrow> (r, (w1, l @ [CallUpdateSecret sec])))"
  "GetKlusterletConfig (recording s) name (w, l) =
     (case GetKlusterletConfig s name w of (rk, w1) \<Rightarrow> (rk, (w1, l @ [CallGetKlusterletConfig name])))"
  "CreateKlusterletConfig (recording s) kc (w, l) =
     (case CreateKlusterletConfig s kc w of (rk, w1) \<Rightarrow> (rk, (w1, l @ [CallCreateKlusterletConfig kc])))"
  "GetManagedCluster (recording s) name (w, l) =
     (case GetManagedCluster s name w of (rm, w1) \<Rightarrow> (rm, (w1, l @ [CallGetManagedCluster name])))"
  "UpdateManagedCluster (recording s) mcl (w, l) =
     (case UpdateManagedCluster s mcl w of (rm, w1) \<Rightarrow> (rm, (w1, l @ [CallUpdateManagedCluster mcl])))"
  "DeleteManagedCluster (recording s) mcl (w, l) =
     (case DeleteManagedCluster s mcl w of (rd, w1) \<Rightarrow> (rd, (w1, l @ [CallDeleteManagedCluster mcl])))"
  by (simp_all add: recording_def logging_def)

lemma recorded_pass_fetches_all:
  "detachCondition (recording s) names (w, l) = (Inr True, (w', l')) \<Longrightarrow>
   fetched l' = fetched l @ names"
proof (induction names arbitrary: w l)
  case Nil
  then show ?case by simp
next
  case (Cons n ns)
  obtain rm w1 where g: "GetManagedCluster s n w = (rm, w1)"
    by (cases "GetManagedCluster s n w")
  show ?case
  proof (cases rm)
    case (Inl err)
    with Cons.prems g
    have "detachCondition (recording s) ns (w1, l @ [CallGetManagedCluster n]) = (Inr True, (w', l'))"
      by (simp add: recording_simps split: if_splits)
    from Cons.IH[OF this] show ?thesis by (simp add: fetched_append)
  next
    case (Inr mcl)
    obtain rd w2 where d: "DeleteManagedCluster s mcl w1 = (rd, w2)"
      by (cases "DeleteManagedCluster s mcl w1")
    with Cons.prems g Inr
    have "detachCondition (recording s) ns
            (w2, l @ [CallGetManagedCluster n] @ [CallDeleteManagedCluster mcl]) = (Inr True, (w', l'))"
      by (simp add: recording_simps split: if_splits option.splits)
    from Cons.IH[OF this] show ?thesis by (simp add: fetched_append)
  qed
qed

subsection \<open>The detachment on the in-memory store\<close>

lemma memClient_simps:
  "GetSecret memClient = memGetSecret"
  "CreateSecret memClient = memCreateSecret"
  "UpdateSecret memClient = memUpdateSecret"
  "GetKlusterletConfig memClient = memGetKlusterletConfig"
  "CreateKlusterletConfig memClient = memCreateKlusterletConfig"
  "GetManagedCluster memClient = memGetManagedCluster"
  "UpdateManagedCluster memClient = memUpdateManagedCluster"
  "DeleteManagedCluster memClient = memDeleteManagedCluster"
  by (simp_all add: memClient_def)

lemma mem_pass_step:
  "detachCondition memClient (n # ns) w =
     (case find (\<lambda>x. mc_Name x = n) (w_ManagedClusters w) of
        None \<Rightarrow> detachCondition memClient ns w
      | Some mcl \<Rightarrow>
          if IsStatusConditionPresentAndEqual (mc_Conditions mcl)
               ManagedClusterConditionAvailable ConditionUnknown
          then detachCondition memClient ns
                 (w \<lparr> w_ManagedClusters := filter (\<lambda>y. mc_Name y \<noteq> n) (w_ManagedClusters w) \<rparr>)
          else (Inr False, w))"
proof (cases "find (\<lambda>x. mc_Name x = n) (w_ManagedClusters w)")
  case None
  then show ?thesis
    by (simp add: memClient_simps memGetManagedCluster_def IsNotFound_def)
next
  case (Some mcl)
  from find_SomeD[OF Some] have "mc_Name mcl = n" by simp
  with Some show ?thesis
    by (simp add: memClient_simps memGetManagedCluster_def memDeleteManagedCluster_def)
qed

lemma clusterNames_filter:
  "clusterNames (w \<lparr> w_ManagedClusters := filter (\<lambda>y. mc_Name y \<noteq> n) (w_ManagedClusters w) \<rparr>)
     = clusterNames w - {n}"
  by (auto simp: clusterNames_def)

lemma find_None_names:
  "(find (\<lambda>x. mc_Name x = n) (w_ManagedClusters w) = None) = (n \<notin> clusterNames w)"
  by (auto simp: clusterNames_def find_None_iff)

lemma mem_pass_shrinks:
  "detachCondition memClient names w = (r, w') \<Longrightarrow> clusterNames w' \<subseteq> clusterNames w"
proof (induction names arbitrary: w)
  case Nil
  then show ?case by simp
next
  case (Cons n ns)
  show ?case
  proof (cases "find (\<lambda>x. mc_Name x = n) (w_ManagedClusters w)")
    case None
    with Cons show ?thesis by (simp add: mem_pass_step del: detachCondition.simps)
  next
    case (Some mcl)
    show ?thesis
    proof (cases "IsStatusConditionPresentAndEqual (mc_Conditions mcl)
               ManagedClusterConditionAvailable ConditionUnknown")
      case True
      with Cons.prems Some
      have "detachCondition memClient ns
              (w \<lparr> w_ManagedClusters := filter (\<lambda>y. mc_Name y \<noteq> n) (w_ManagedClusters w) \<rparr>)
            = (r, w')"
        by (simp add: mem_pass_step del: detachCondition.simps)
      from Cons.IH[OF this] show ?thesis by (auto simp: clusterNames_filter)
    next
      case False
      with Cons.prems Some show ?thesis by (simp add: mem_pass_step del: detachCondition.simps)
    qed
  qed
qed

lemma mem_pass_no_error:
  "detachCondition memClient names w \<noteq> (Inl err, w')"
proof (induction names arbitrary: w)
  case Nil
  then show ?case by simp
next
  case (Cons n ns)
  then show ?case by (simp add: mem_pass_step del: detachCondition.simps split: option.splits)
qed

lemma mem_pass_true:
  "detachCondition memClient names w = (Inr True, w') \<Longrightarrow> set names \<inter> clusterNames w' = {}"
proof (induction names arbitrary: w)
  case Nil
  then show ?case by simp
next
  case (Cons n ns)
  show ?case
  proof (cases "find (\<lambda>x. mc_Name x = n) (w_ManagedClusters w)")
    case None
    with Cons.prems have rest: "detachCondition memClient ns w = (Inr True, w')"
      by (simp add: mem_pass_step del: detachCondition.simps)
    from None have "n \<notin> clusterNames w" by (simp add: find_None_names)
    with mem_pass_shrinks[OF rest] have "n \<notin> clusterNames w'" by blast
    with Cons.IH[OF rest] show ?thesis by simp
  next
    case (Some mcl)
    show ?thesis
    proof (cases "IsStatusConditionPresentAndEqual (mc_Conditions mcl)
               ManagedClusterConditionAvailable ConditionUnknown")
      case True
      with Cons.prems Some
      have rest: "detachCondition memClient ns
              (w \<lparr> w_ManagedClusters := filter (\<lambda>y. mc_Name y \<noteq> n) (w_ManagedClusters w) \<rparr>)
            = (Inr True, w')"
        by (simp add: mem_pass_step del: detachCondition.simps)
      from mem_pass_shrinks[OF rest] have "n \<notin> clusterNames w'"
        by (auto simp: clusterNames_filter)
      with Cons.IH[OF rest] show ?thesis by simp
    next
      case False
      with Cons.prems Some show ?thesis by (simp add: mem_pass_step del: detachCondition.simps)
    qed
  qed
qed



lemma mem_pass_keeps_bare:
  "hasNoAvailability name w \<Longrightarrow> detachCondition memClient names w = (r, w') \<Longrightarrow>
   hasNoAvailability name w'"
proof (induction names arbitrary: w)
  case Nil
  then show ?case by simp
next
  case (Cons n ns)
  show ?case
  proof (cases "find (\<lambda>x. mc_Name x = n) (w_ManagedClusters w)")
    case None
    with Cons show ?thesis by (simp add: mem_pass_step del: detachCondition.simps)
  next
    case (Some mcl)
    show ?thesis
    proof (cases "IsStatusConditionPresentAndEqual (mc_Conditions mcl)
               ManagedClusterConditionAvailable ConditionUnknown")
      case True
      with Cons.prems Some
      have rest: "detachCondition memClient ns
              (w \<lparr> w_ManagedClusters := filter (\<lambda>y. mc_Name y \<noteq> n) (w_ManagedClusters w) \<rparr>)
            = (r, w')"
        by (simp add: mem_pass_step del: detachCondition.simps)
      have "n \<noteq> name"
      proof
        assume "n = name"
        with Some Cons.prems(1)
        have "find (\<lambda>c. cond_Type c = ManagedClusterConditionAvailable) (mc_Conditions mcl) = None"
          by (simp add: hasNoAvailability_def)
        from absent_condition_not_equal[OF this] True show False by simp
      qed
      with Cons.prems(1)
      have "hasNoAvailability name
              (w \<lparr> w_ManagedClusters := filter (\<lambda>y. mc_Name y \<noteq> n) (w_ManagedClusters w) \<rparr>)"
        by (simp add: hasNoAvailability_def find_filter_other)
      from Cons.IH[OF this rest] show ?thesis .
    next
      case False
      with Cons.prems Some show ?thesis by (simp add: mem_pass_step del: detachCondition.simps)
    qed
  qed
qed

lemma bare_is_present: "hasNoAvailability name w \<Longrightarrow> name \<in> clusterNames w"
  using find_None_names[of name w] by (auto simp: hasNoAvailability_def split: option.splits)

lemma mem_pass_blocked:
  assumes "name \<in> set names" and "hasNoAvailability name w"
  shows "\<exists>v. detachCondition memClient names w = (Inr False, v) \<and> hasNoAvailability name v"
proof -
  obtain r v where pass: "detachCondition memClient names w = (r, v)"
    by (cases "detachCondition memClient names w")
  from mem_pass_keeps_bare[OF assms(2) pass] have bare: "hasNoAvailability name v" .
  have "r \<noteq> Inr True"
  proof
    assume "r = Inr True"
    with pass mem_pass_true have "set names \<inter> clusterNames v = {}" by blast
    with assms(1) bare_is_present[OF bare] show False by blast
  qed
  moreover from pass mem_pass_no_error have "\<And>err. r \<noteq> Inl err" by blast
  ultimately have "r = Inr False" by (cases r) auto
  with pass bare show ?thesis by simp
qed

subsection \<open>Secrets on the in-memory store\<close>

lemma mem_put_secret:
  "\<exists>w1. (case find (isSecret (secret_Name obj) (secret_Namespace obj)) (w_Secrets w) of
            None \<Rightarrow> memCreateSecret obj w
          | Some x \<Rightarrow> memUpdateSecret obj w) = (Inr obj, w1)
       \<and> find (isSecret (secret_Name obj) (secret_Namespace obj)) (w_Secrets w1) = Some obj
       \<and> (\<forall>n ns. \<not> (n = secret_Name obj \<and> ns = secret_Namespace obj) \<longrightarrow>
             find (isSecret n ns) (w_Secrets w1) = find (isSecret n ns) (w_Secrets w))"
proof (cases "find (isSecret (secret_Name obj) (secret_Namespace obj)) (w_Secrets w)")
  case None
  then show ?thesis
    by (auto simp: memCreateSecret_def find_append_one isSecret_def split: option.splits)
next
  case (Some x)
  have self: "isSecret (secret_Name obj) (secret_Namespace obj) obj"
    by (simp add: isSecret_def)
  have other: "find (isSecret n ns)
                 (map (\<lambda>y. if isSecret (secret_Name obj) (secret_Namespace obj) y then obj else y)
                    (w_Secrets w))
               = find (isSecret n ns) (w_Secrets w)"
    if "\<not> (n = secret_Name obj \<and> ns = secret_Namespace obj)" for n ns
    using that by (intro find_map_replace_other) (auto simp: isSecret_def)
  from Some self other show ?thesis
    by (simp add: memUpdateSecret_def find_map_replace)
qed

lemma mem_syncBootstrapSecret:
  "syncBootstrapSecret memClient obj w =
     (case find (isSecret (secret_Name obj) (secret_Namespace obj)) (w_Secrets w) of
        None \<Rightarrow> memCreateSecret obj w
      | Some x \<Rightarrow> memUpdateSecret obj w)"
  by (simp add: syncBootstrapSecret_def memClient_simps memGetSecret_def IsNotFound_def
        split: option.splits)

lemma mem_syncBootstrapSecretBackup:
  "syncBootstrapSecretBackup memClient obj w =
     (case find (isSecret (secret_Name obj @ bootstrapSecretBackupSuffix) (secret_Namespace obj))
             (w_Secrets w) of
        None \<Rightarrow>
          memCreateSecret
            \<lparr> secret_Name = secret_Name obj @ bootstrapSecretBackupSuffix,
              secret_Namespace = secret_Namespace obj, secret_Data = secret_Data obj \<rparr> w
      | Some x \<Rightarrow>
          memUpdateSecret
            \<lparr> secret_Name = secret_Name obj @ bootstrapSecretBackupSuffix,
              secret_Namespace = secret_Namespace obj, secret_Data = secret_Data obj \<rparr> w)"
  by (simp add: syncBootstrapSecretBackup_def memClient_simps memGetSecret_def IsNotFound_def
        Let_def split: option.splits)

subsection \<open>Annotations on the in-memory store\<close>

lemma alreadyMigrating_setMigrating: "alreadyMigrating (setMigrating mcl cfg) cfg"
  using keys_differ by (simp add: alreadyMigrating_def setMigrating_def annotationsOf_def Let_def)

lemma mc_Name_setMigrating: "mc_Name (setMigrating mcl cfg) = mc_Name mcl"
  by (simp add: setMigrating_def)

lemma mem_annotate_step:
  "annotateManagedClusters memClient cfg (n # ns) w =
     (case find (\<lambda>x. mc_Name x = n) (w_ManagedClusters w) of
        None \<Rightarrow> (Some NotFound, w)
      | Some mcl \<Rightarrow>
          if alreadyMigrating mcl cfg then annotateManagedClusters memClient cfg ns w
          else annotateManagedClusters memClient cfg ns
                 (w \<lparr> w_ManagedClusters :=
                       map (\<lambda>y. if mc_Name y = n then setMigrating mcl cfg else y)
                         (w_ManagedClusters w) \<rparr>))"
proof (cases "find (\<lambda>x. mc_Name x = n) (w_ManagedClusters w)")
  case None
  then show ?thesis by (simp add: memClient_simps memGetManagedCluster_def)
next
  case (Some mcl)
  from find_SomeD[OF Some] have "mc_Name mcl = n" by simp
  with Some show ?thesis
    by (simp add: memClient_simps memGetManagedCluster_def memUpdateManagedCluster_def
          mc_Name_setMigrating)
qed

lemma announced_after_update:
  assumes "find (\<lambda>x. mc_Name x = n) (w_ManagedClusters w) = Some mcl"
    and "isAnnounced cfg name w \<or> name = n"
  shows "isAnnounced cfg name
           (w \<lparr> w_ManagedClusters :=
                 map (\<lambda>y. if mc_Name y = n then setMigrating mcl cfg else y) (w_ManagedClusters w) \<rparr>)"
proof (cases "name = n")
  case True
  from find_SomeD[OF assms(1)] have "mc_Name (setMigrating mcl cfg) = n"
    by (simp add: mc_Name_setMigrating)
  from find_map_replace[where P = "\<lambda>x. mc_Name x = n", OF this, of "w_ManagedClusters w"] assms(1) True
  show ?thesis by (simp add: isAnnounced_def alreadyMigrating_setMigrating)
next
  case False
  from find_SomeD[OF assms(1)] have n: "mc_Name mcl = n" by simp
  have "find (\<lambda>x. mc_Name x = name)
          (map (\<lambda>y. if mc_Name y = n then setMigrating mcl cfg else y) (w_ManagedClusters w))
        = find (\<lambda>x. mc_Name x = name) (w_ManagedClusters w)"
    using False n by (intro find_map_replace_other) (auto simp: mc_Name_setMigrating)
  with assms(2) False show ?thesis by (simp add: isAnnounced_def)
qed

lemma mem_annotate_keeps:
  "isAnnounced cfg name w \<Longrightarrow> annotateManagedClusters memClient cfg names w = (r, w') \<Longrightarrow>
   isAnnounced cfg name w'"
proof (induction names arbitrary: w)
  case Nil
  then show ?case by simp
next
  case (Cons n ns)
  show ?case
  proof (cases "find (\<lambda>x. mc_Name x = n) (w_ManagedClusters w)")
    case None
    with Cons.prems show ?thesis
      by (simp add: mem_annotate_step del: annotateManagedClusters.simps)
  next
    case (Some mcl)
    show ?thesis
    proof (cases "alreadyMigrating mcl cfg")
      case True
      with Cons.prems Some have "annotateManagedClusters memClient cfg ns w = (r, w')"
        by (simp add: mem_annotate_step del: annotateManagedClusters.simps)
      from Cons.IH[OF Cons.prems(1) this] show ?thesis .
    next
      case False
      with Cons.prems Some
      have rest: "annotateManagedClusters memClient cfg ns
                 (w \<lparr> w_ManagedClusters :=
                       map (\<lambda>y. if mc_Name y = n then setMigrating mcl cfg else y)
                         (w_ManagedClusters w) \<rparr>) = (r, w')"
        by (simp add: mem_annotate_step del: annotateManagedClusters.simps)
      from announced_after_update[OF Some, of cfg name] Cons.prems(1)
      have "isAnnounced cfg name
              (w \<lparr> w_ManagedClusters :=
                       map (\<lambda>y. if mc_Name y = n then setMigrating mcl cfg else y)
                         (w_ManagedClusters w) \<rparr>)"
        by simp
      from Cons.IH[OF this rest] show ?thesis .
    qed
  qed
qed

lemma mem_annotate_all:
  "annotateManagedClusters memClient cfg names w = (None, w') \<Longrightarrow>
   \<forall>name\<in>set names. isAnnounced cfg name w'"
proof (induction names arbitrary: w)
  case Nil
  then show ?case by simp
next
  case (Cons n ns)
  show ?case
  proof (cases "find (\<lambda>x. mc_Name x = n) (w_ManagedClusters w)")
    case None
    with Cons.prems show ?thesis
      by (simp add: mem_annotate_step del: annotateManagedClusters.simps)
  next
    case (Some mcl)
    show ?thesis
    proof (cases "alreadyMigrating mcl cfg")
      case True
      with Cons.prems Some have rest: "annotateManagedClusters memClient cfg ns w = (None, w')"
        by (simp add: mem_annotate_step del: annotateManagedClusters.simps)
      from Some True have "isAnnounced cfg n w" by (simp add: isAnnounced_def)
      from mem_annotate_keeps[OF this rest] Cons.IH[OF rest] show ?thesis by simp
    next
      case False
      with Cons.prems Some
      have rest: "annotateManagedClusters memClient cfg ns
                 (w \<lparr> w_ManagedClusters :=
                       map (\<lambda>y. if mc_Name y = n then setMigrating mcl cfg else y)
                         (w_ManagedClusters w) \<rparr>) = (None, w')"
        by (simp add: mem_annotate_step del: annotateManagedClusters.simps)
      from announced_after_update[OF Some, of cfg n]
      have "isAnnounced cfg n
              (w \<lparr> w_ManagedClusters :=
                       map (\<lambda>y. if mc_Name y = n then setMigrating mcl cfg else y)
                         (w_ManagedClusters w) \<rparr>)"
        by simp
      from mem_annotate_keeps[OF this rest] Cons.IH[OF rest] show ?thesis by simp
    qed
  qed
qed

lemma mem_annotate_noop:
  "\<forall>name\<in>set names. isAnnounced cfg name w \<Longrightarrow>
   annotateManagedClusters (recording memClient) cfg names (w, l)
     = (None, (w, l @ map CallGetManagedCluster names))"
proof (induction names arbitrary: l)
  case Nil
  then show ?case by simp
next
  case (Cons n ns)
  from Cons.prems obtain mcl where
    "find (\<lambda>x. mc_Name x = n) (w_ManagedClusters w) = Some mcl" "alreadyMigrating mcl cfg"
    by (auto simp: isAnnounced_def split: option.splits)
  moreover from Cons.prems have "\<forall>name\<in>set ns. isAnnounced cfg name w" by simp
  note Cons.IH[OF this, of "l @ [CallGetManagedCluster n]"]
  ultimately show ?case
    by (simp add: recording_simps memClient_simps memGetManagedCluster_def)
qed

lemma ex_announced:
  "alreadyMigrating (announcedCluster name) ''migration-hub2''"
  by (simp add: alreadyMigrating_def annotationsOf_def announcedCluster_def const_simps Let_def)

subsection \<open>A whole preparation, evaluated\<close>

lemma ex_prepare:
  "prepareMigration refusingClient (exUnmarshal [''c1'']) [] (worldOf [unknownCluster ''c1''])
     = (Inr [''c1''], exPreparedWorld [announcedUnknownCluster ''c1''])"
  by (simp add: prepareMigration_def exUnmarshal_def exEvent_def syncBootstrapSecret_def
        syncBootstrapSecretBackup_def syncKlusterletConfig_def refusingClient_def memClient_def
        memGetSecret_def memCreateSecret_def memUpdateSecret_def memGetKlusterletConfig_def
        memCreateKlusterletConfig_def memGetManagedCluster_def memUpdateManagedCluster_def
        isSecret_def exSecret_def exBackupSecret_def exConfig_def exProvisionedConfig_def
        worldOf_def exPreparedWorld_def unknownCluster_def announcedUnknownCluster_def
        alreadyMigrating_def annotationsOf_def setMigrating_def const_simps IsNotFound_def Let_def)

section \<open>The claims\<close>

subsection \<open>C1: when the detachment reports success\<close>




subsection \<open>C2: an error of the delete\<close>




subsection \<open>C3: the backup secret\<close>

text \<open>
  Claim C3. On the in-memory store, from any world and for any bootstrap secret of
  the instruction, both secret stages succeed; afterwards the store holds, under the
  primary's name with the suffix and in the primary's namespace, a backup whose data
  is the instruction's data, and it holds the instruction's secret under the primary's
  name. With any client, the only read of the backup stage is the get of the backup's
  own key, and what it writes is the backup built from the secret in memory.
\<close>

theorem backup_mirrors_instruction:
  "(\<exists>w1 w2.
      syncBootstrapSecret memClient bootstrapSecret w = (Inr bootstrapSecret, w1)
    \<and> syncBootstrapSecretBackup memClient bootstrapSecret w1 =
        (Inr \<lparr> secret_Name = secret_Name bootstrapSecret @ bootstrapSecretBackupSuffix,
               secret_Namespace = secret_Namespace bootstrapSecret,
               secret_Data = secret_Data bootstrapSecret \<rparr>, w2)
    \<and> GetSecret memClient (secret_Name bootstrapSecret @ bootstrapSecretBackupSuffix)
          (secret_Namespace bootstrapSecret) w2 =
        (Inr \<lparr> secret_Name = secret_Name bootstrapSecret @ bootstrapSecretBackupSuffix,
               secret_Namespace = secret_Namespace bootstrapSecret,
               secret_Data = secret_Data bootstrapSecret \<rparr>, w2)
    \<and> GetSecret memClient (secret_Name bootstrapSecret) (secret_Namespace bootstrapSecret) w2 =
        (Inr bootstrapSecret, w2))
 \<and> (\<exists>r v1 written.
      syncBootstrapSecretBackup (recording s) bootstrapSecret (v, l) =
        (r, (v1, l @ CallGetSecret (secret_Name bootstrapSecret @ bootstrapSecretBackupSuffix)
                       (secret_Namespace bootstrapSecret) # written))
    \<and> (written = []
       \<or> written = [CallCreateSecret
            \<lparr> secret_Name = secret_Name bootstrapSecret @ bootstrapSecretBackupSuffix,
              secret_Namespace = secret_Namespace bootstrapSecret,
              secret_Data = secret_Data bootstrapSecret \<rparr>]
       \<or> written = [CallUpdateSecret
            \<lparr> secret_Name = secret_Name bootstrapSecret @ bootstrapSecretBackupSuffix,
              secret_Namespace = secret_Namespace bootstrapSecret,
              secret_Data = secret_Data bootstrapSecret \<rparr>]))"
proof (intro conjI)
  let ?backup = "\<lparr> secret_Name = secret_Name bootstrapSecret @ bootstrapSecretBackupSuffix,
               secret_Namespace = secret_Namespace bootstrapSecret,
               secret_Data = secret_Data bootstrapSecret \<rparr>"
  from mem_put_secret[of bootstrapSecret w]
  obtain w1 where first: "syncBootstrapSecret memClient bootstrapSecret w = (Inr bootstrapSecret, w1)"
    and primary1: "find (isSecret (secret_Name bootstrapSecret) (secret_Namespace bootstrapSecret))
                     (w_Secrets w1) = Some bootstrapSecret"
    by (auto simp: mem_syncBootstrapSecret)
  from mem_put_secret[of ?backup w1]
  obtain w2 where second: "syncBootstrapSecretBackup memClient bootstrapSecret w1 = (Inr ?backup, w2)"
    and backup2: "find (isSecret (secret_Name ?backup) (secret_Namespace ?backup)) (w_Secrets w2)
                    = Some ?backup"
    and others: "\<forall>n ns. \<not> (n = secret_Name ?backup \<and> ns = secret_Namespace ?backup) \<longrightarrow>
             find (isSecret n ns) (w_Secrets w2) = find (isSecret n ns) (w_Secrets w1)"
    by (auto simp: mem_syncBootstrapSecretBackup)
  have "secret_Name bootstrapSecret \<noteq> secret_Name ?backup"
    by (simp add: bootstrapSecretBackupSuffix_def)
  with others primary1
  have primary2: "find (isSecret (secret_Name bootstrapSecret) (secret_Namespace bootstrapSecret))
                     (w_Secrets w2) = Some bootstrapSecret"
    by simp
  from first second backup2 primary2
  show "\<exists>w1 w2.
      syncBootstrapSecret memClient bootstrapSecret w = (Inr bootstrapSecret, w1)
    \<and> syncBootstrapSecretBackup memClient bootstrapSecret w1 = (Inr ?backup, w2)
    \<and> GetSecret memClient (secret_Name bootstrapSecret @ bootstrapSecretBackupSuffix)
          (secret_Namespace bootstrapSecret) w2 = (Inr ?backup, w2)
    \<and> GetSecret memClient (secret_Name bootstrapSecret) (secret_Namespace bootstrapSecret) w2 =
        (Inr bootstrapSecret, w2)"
    by (auto simp: memClient_simps memGetSecret_def)
next
  let ?backup = "\<lparr> secret_Name = secret_Name bootstrapSecret @ bootstrapSecretBackupSuffix,
               secret_Namespace = secret_Namespace bootstrapSecret,
               secret_Data = secret_Data bootstrapSecret \<rparr>"
  show "\<exists>r v1 written.
      syncBootstrapSecretBackup (recording s) bootstrapSecret (v, l) =
        (r, (v1, l @ CallGetSecret (secret_Name bootstrapSecret @ bootstrapSecretBackupSuffix)
                       (secret_Namespace bootstrapSecret) # written))
    \<and> (written = [] \<or> written = [CallCreateSecret ?backup] \<or> written = [CallUpdateSecret ?backup])"
    by (auto simp: syncBootstrapSecretBackup_def recording_simps Let_def
             split: prod.splits sum.splits)
qed

text \<open>
  The store holds a stale primary with other data; afterwards primary and backup both
  carry the data of the instruction.
\<close>

theorem backup_mirrors_instruction_witness:
  "syncBootstrapSecret memClient exSecret (secretWorld [exStaleSecret])
     = (Inr exSecret, secretWorld [exSecret])
   \<and> syncBootstrapSecretBackup memClient exSecret (secretWorld [exSecret])
     = (Inr exBackupSecret, secretWorld [exSecret, exBackupSecret])
   \<and> GetSecret memClient ''bootstrap-hub2-backup'' ''multicluster-engine''
       (secretWorld [exSecret, exBackupSecret])
     = (Inr exBackupSecret, secretWorld [exSecret, exBackupSecret])
   \<and> secret_Data exBackupSecret = secret_Data exSecret
   \<and> secret_Data exStaleSecret \<noteq> secret_Data exSecret"
proof -
  have a: "syncBootstrapSecret memClient exSecret (secretWorld [exStaleSecret])
     = (Inr exSecret, secretWorld [exSecret])"
    by (simp add: mem_syncBootstrapSecret memUpdateSecret_def secretWorld_def isSecret_def
          exSecret_def exStaleSecret_def)
  have b: "\<lparr> secret_Name = ''bootstrap-hub2-backup'',
             secret_Namespace = ''multicluster-engine'',
             secret_Data = secret_Data exSecret \<rparr> = exBackupSecret"
    by (simp add: exSecret_def exBackupSecret_def)
  have c: "secret_Name exSecret @ bootstrapSecretBackupSuffix = ''bootstrap-hub2-backup''"
    "secret_Namespace exSecret = ''multicluster-engine''"
    by (simp_all add: exSecret_def const_simps)
  have d: "secret_Data exStaleSecret \<noteq> secret_Data exSecret"
  proof
    assume "secret_Data exStaleSecret = secret_Data exSecret"
    then have "secret_Data exStaleSecret ''kubeconfig'' = secret_Data exSecret ''kubeconfig''"
      by simp
    then show False by (simp add: exSecret_def exStaleSecret_def)
  qed
  from backup_mirrors_instruction[where bootstrapSecret = exSecret
         and w = "secretWorld [exStaleSecret]" and s = memClient and v = "secretWorld []"
         and l = "[]"]
  obtain w1 w2 where
    "syncBootstrapSecret memClient exSecret (secretWorld [exStaleSecret]) = (Inr exSecret, w1)"
    "syncBootstrapSecretBackup memClient exSecret w1 = (Inr exBackupSecret, w2)"
    "GetSecret memClient ''bootstrap-hub2-backup'' ''multicluster-engine'' w2 = (Inr exBackupSecret, w2)"
    unfolding c b by blast
  moreover have "syncBootstrapSecretBackup memClient exSecret (secretWorld [exSecret])
     = (Inr exBackupSecret, secretWorld [exSecret, exBackupSecret])"
    by (simp add: mem_syncBootstrapSecretBackup memCreateSecret_def secretWorld_def isSecret_def
          exSecret_def exBackupSecret_def const_simps)
  ultimately show ?thesis using a d
    by (simp add: exSecret_def exBackupSecret_def)
qed

subsection \<open>C4: clusters that are already announced\<close>

text \<open>
  Claim C4. When the loop of the annotator reaches a cluster that the get returns
  with the migrating annotation and with the klusterlet-config annotation equal to the
  config's name, it issues no call but that get and goes on with the next cluster.
  Hence on the in-memory store a batch whose clusters are all announced is passed with
  one get for each cluster and no other call, the world unchanged; and so is every
  batch right after a run of the annotator that succeeded on it.
\<close>

theorem announced_cluster_not_written:
  "(annotateManagedClusters (recording s) cfg before (v0, l0) = (None, (v, l)) \<and>
    GetManagedCluster s name v = (Inr mcl, v1) \<and> alreadyMigrating mcl cfg \<longrightarrow>
      annotateManagedClusters (recording s) cfg (before @ name # after) (v0, l0)
        = annotateManagedClusters (recording s) cfg after (v1, l @ [CallGetManagedCluster name]))
 \<and> ((\<forall>n\<in>set names. isAnnounced cfg n w) \<longrightarrow>
      annotateManagedClusters (recording memClient) cfg names (w, k)
        = (None, (w, k @ map CallGetManagedCluster names)))
 \<and> (annotateManagedClusters memClient cfg names w0 = (None, w) \<longrightarrow>
      annotateManagedClusters (recording memClient) cfg names (w, k)
        = (None, (w, k @ map CallGetManagedCluster names)))"
proof (intro conjI impI)
  assume "annotateManagedClusters (recording s) cfg before (v0, l0) = (None, (v, l)) \<and>
    GetManagedCluster s name v = (Inr mcl, v1) \<and> alreadyMigrating mcl cfg"
  then show "annotateManagedClusters (recording s) cfg (before @ name # after) (v0, l0)
        = annotateManagedClusters (recording s) cfg after (v1, l @ [CallGetManagedCluster name])"
    by (simp add: annotateManagedClusters_append recording_simps)
next
  assume "\<forall>n\<in>set names. isAnnounced cfg n w"
  then show "annotateManagedClusters (recording memClient) cfg names (w, k)
        = (None, (w, k @ map CallGetManagedCluster names))"
    by (rule mem_annotate_noop)
next
  assume "annotateManagedClusters memClient cfg names w0 = (None, w)"
  from mem_annotate_all[OF this]
  show "annotateManagedClusters (recording memClient) cfg names (w, k)
        = (None, (w, k @ map CallGetManagedCluster names))"
    by (rule mem_annotate_noop)
qed

text \<open>
  An announced batch, a second run after a first one, and a mixed batch in which only
  the cluster that was not announced is updated.
\<close>

theorem announced_cluster_not_written_witness:
  "annotateManagedClusters (recording memClient) ''migration-hub2'' [''c1'', ''c2'']
       (worldOf [announcedCluster ''c1'', announcedCluster ''c2''], [])
     = (None, (worldOf [announcedCluster ''c1'', announcedCluster ''c2''],
               [CallGetManagedCluster ''c1'', CallGetManagedCluster ''c2'']))
   \<and> annotateManagedClusters memClient ''migration-hub2'' [''c1'']
       (worldOf [availableCluster ''c1'']) = (None, worldOf [announcedCluster ''c1''])
   \<and> annotateManagedClusters (recording memClient) ''migration-hub2'' [''c1'']
       (worldOf [announcedCluster ''c1''], [])
     = (None, (worldOf [announcedCluster ''c1''], [CallGetManagedCluster ''c1'']))
   \<and> annotateManagedClusters (recording memClient) ''migration-hub2'' [''c1'', ''c2'']
       (worldOf [announcedCluster ''c1'', availableCluster ''c2''], [])
     = (None, (worldOf [announcedCluster ''c1'', announcedCluster ''c2''],
               [CallGetManagedCluster ''c1'', CallGetManagedCluster ''c2'',
                CallUpdateManagedCluster (announcedCluster ''c2'')]))"
proof -
  have all: "\<forall>n\<in>set [''c1'', ''c2''].
               isAnnounced ''migration-hub2'' n (worldOf [announcedCluster ''c1'', announcedCluster ''c2''])"
    using ex_announced by (simp add: isAnnounced_def worldOf_def announcedCluster_def)
  have run: "annotateManagedClusters memClient ''migration-hub2'' [''c1'']
       (worldOf [availableCluster ''c1'']) = (None, worldOf [announcedCluster ''c1''])"
    by (simp add: mem_annotate_step worldOf_def availableCluster_def announcedCluster_def
          alreadyMigrating_def annotationsOf_def setMigrating_def const_simps Let_def
          del: annotateManagedClusters.simps(2))
  have before: "annotateManagedClusters (recording memClient) ''migration-hub2'' []
                  (worldOf [announcedCluster ''c1'', availableCluster ''c2''], [])
                = (None, (worldOf [announcedCluster ''c1'', availableCluster ''c2''], []))"
    by simp
  have get: "GetManagedCluster memClient ''c1'' (worldOf [announcedCluster ''c1'', availableCluster ''c2''])
               = (Inr (announcedCluster ''c1''), worldOf [announcedCluster ''c1'', availableCluster ''c2''])"
    by (simp add: memClient_simps memGetManagedCluster_def worldOf_def announcedCluster_def)
  have rest: "annotateManagedClusters (recording memClient) ''migration-hub2'' [''c2'']
                (worldOf [announcedCluster ''c1'', availableCluster ''c2''], [] @ [CallGetManagedCluster ''c1''])
              = (None, (worldOf [announcedCluster ''c1'', announcedCluster ''c2''],
                   [CallGetManagedCluster ''c1'', CallGetManagedCluster ''c2'',
                    CallUpdateManagedCluster (announcedCluster ''c2'')]))"
    by (simp add: recording_simps memClient_simps memGetManagedCluster_def
          memUpdateManagedCluster_def worldOf_def availableCluster_def announcedCluster_def
          alreadyMigrating_def annotationsOf_def setMigrating_def const_simps Let_def)
  note inst = announced_cluster_not_written[where s = memClient and cfg = "''migration-hub2''"
         and before = "[]" and ?v0.0 = "worldOf [announcedCluster ''c1'', availableCluster ''c2'']"
         and ?l0.0 = "[]" and v = "worldOf [announcedCluster ''c1'', availableCluster ''c2'']"
         and l = "[]" and name = "''c1''" and mcl = "announcedCluster ''c1''"
         and ?v1.0 = "worldOf [announcedCluster ''c1'', availableCluster ''c2'']"
         and after = "[''c2'']" and k = "[]"]
  from inst[where names = "[''c1'', ''c2'']"
         and w = "worldOf [announcedCluster ''c1'', announcedCluster ''c2'']"
         and ?w0.0 = "worldOf []"]
       before get ex_announced
  have skipped: "annotateManagedClusters (recording memClient) ''migration-hub2''
                   ([] @ ''c1'' # [''c2''])
                   (worldOf [announcedCluster ''c1'', availableCluster ''c2''], [])
                 = annotateManagedClusters (recording memClient) ''migration-hub2'' [''c2'']
                     (worldOf [announcedCluster ''c1'', availableCluster ''c2''],
                      [] @ [CallGetManagedCluster ''c1''])"
    by blast
  from inst[where names = "[''c1'', ''c2'']"
         and w = "worldOf [announcedCluster ''c1'', announcedCluster ''c2'']"
         and ?w0.0 = "worldOf []"]
       all
  have batch: "annotateManagedClusters (recording memClient) ''migration-hub2'' [''c1'', ''c2'']
                 (worldOf [announcedCluster ''c1'', announcedCluster ''c2''], [])
               = (None, (worldOf [announcedCluster ''c1'', announcedCluster ''c2''],
                         [] @ map CallGetManagedCluster [''c1'', ''c2'']))"
    by blast
  from inst[where names = "[''c1'']" and w = "worldOf [announcedCluster ''c1'']"
         and ?w0.0 = "worldOf [availableCluster ''c1'']"]
       run
  have again: "annotateManagedClusters (recording memClient) ''migration-hub2'' [''c1'']
                 (worldOf [announcedCluster ''c1''], [])
               = (None, (worldOf [announcedCluster ''c1''],
                         [] @ map CallGetManagedCluster [''c1'']))"
    by blast
  from skipped rest batch again run show ?thesis
    by (simp del: annotateManagedClusters.simps)
qed

subsection \<open>C5: the error of the detachment is not returned\<close>

text \<open>
  Claim C5. When \<open>Sync\<close> reaches the detachment and the detachment ends with an
  error, \<open>Sync\<close> returns \<^verbatim>\<open>nil\<close>.
\<close>

theorem detach_error_not_returned:
  assumes "prepareMigration s unmarshal payload w = (Inr managedClusters, w1)"
    and "detachManagedClusters s ctx managedClusters w1 = Some (Some err, w2)"
  shows "Sync s unmarshal ctx payload w = Some (Returned None, w2)"
  using assms by (simp add: Sync_def)

text \<open>
  The server refuses the delete of \<open>c1\<close>: the detachment ends with that error and
  \<open>Sync\<close> returns \<^verbatim>\<open>nil\<close>.
\<close>

theorem detach_error_not_returned_witness:
  "detachManagedClusters refusingClient neverDone [''c1'']
       (exPreparedWorld [announcedUnknownCluster ''c1''])
     = Some (Some (StoreError ''forbidden''), exPreparedWorld [announcedUnknownCluster ''c1''])
   \<and> Sync refusingClient (exUnmarshal [''c1'']) neverDone [] (worldOf [unknownCluster ''c1''])
     = Some (Returned None, exPreparedWorld [announcedUnknownCluster ''c1''])"
proof -
  have d: "detachManagedClusters refusingClient neverDone [''c1'']
       (exPreparedWorld [announcedUnknownCluster ''c1''])
     = Some (Some (StoreError ''forbidden''), exPreparedWorld [announcedUnknownCluster ''c1''])"
    by (simp add: detachManagedClusters_first refusingClient_def memClient_def
          memGetManagedCluster_def exPreparedWorld_def announcedUnknownCluster_def ex_simps)
  from detach_error_not_returned[OF ex_prepare d] d show ?thesis by simp
qed

subsection \<open>C6: a pass stops at the first cluster that is not ready\<close>

text \<open>
  Claim C6. Let a pass have gone through the clusters \<open>before\<close> and fetch \<open>name\<close>
  with an Availability other than Unknown. Then the pass returns \<^verbatim>\<open>(false, nil)\<close>
  and its last call is the get of \<open>name\<close>, whatever clusters come \<open>after\<close>; the
  clusters fetched are those of \<open>before\<close> and \<open>name\<close>, in the order of the list;
  and after the wait, unless the context is done, the detachment goes on as if it had
  been started afresh on the whole list.
\<close>

theorem pass_stops_at_first_unready:
  assumes "detachCondition (recording s) before (w0, l0) = (Inr True, (w, l))"
    and "GetManagedCluster s name w = (Inr mcl, w1)"
    and "\<not> IsStatusConditionPresentAndEqual (mc_Conditions mcl)
             ManagedClusterConditionAvailable ConditionUnknown"
  shows "detachCondition (recording s) (before @ name # after) (w0, l0)
           = (Inr False, (w1, l @ [CallGetManagedCluster name]))
       \<and> fetched (l @ [CallGetManagedCluster name]) = fetched l0 @ before @ [name]
       \<and> detachManagedClusters (recording s) ctx (before @ name # after) (w0, l0)
           = (case ctx (w1, l @ [CallGetManagedCluster name]) of
                (True, v) \<Rightarrow> Some (Some ContextCanceled, v)
              | (False, v) \<Rightarrow> detachManagedClusters (recording s) ctx (before @ name # after) v)"
proof -
  from assms have pass: "detachCondition (recording s) (before @ name # after) (w0, l0)
           = (Inr False, (w1, l @ [CallGetManagedCluster name]))"
    by (simp add: detachCondition_append recording_simps)
  from recorded_pass_fetches_all[OF assms(1)]
  have "fetched (l @ [CallGetManagedCluster name]) = fetched l0 @ before @ [name]"
    by (simp add: fetched_append)
  moreover from pass
  have "detachManagedClusters (recording s) ctx (before @ name # after) (w0, l0)
           = pollLoop ctx (detachCondition (recording s) (before @ name # after))
               (w1, l @ [CallGetManagedCluster name])"
    by (simp add: detachManagedClusters_first)
  ultimately show ?thesis using pass by (simp add: pollLoop_next)
qed

text \<open>
  \<open>c1\<close> is deleted, \<open>c2\<close> is still reachable, and \<open>c3\<close>, which the hub has lost,
  is neither fetched nor deleted.
\<close>

theorem pass_stops_at_first_unready_witness:
  "detachCondition (recording memClient) [''c1'', ''c2'', ''c3'']
       (worldOf [unknownCluster ''c1'', availableCluster ''c2'', unknownCluster ''c3''], [])
     = (Inr False, (worldOf [availableCluster ''c2'', unknownCluster ''c3''],
          [CallGetManagedCluster ''c1'', CallDeleteManagedCluster (unknownCluster ''c1''),
           CallGetManagedCluster ''c2'']))
   \<and> detachManagedClusters (recording memClient) doneAtOnce [''c1'', ''c2'', ''c3'']
       (worldOf [unknownCluster ''c1'', availableCluster ''c2'', unknownCluster ''c3''], [])
     = Some (Some ContextCanceled, (worldOf [availableCluster ''c2'', unknownCluster ''c3''],
          [CallGetManagedCluster ''c1'', CallDeleteManagedCluster (unknownCluster ''c1''),
           CallGetManagedCluster ''c2'']))"
proof -
  have a: "detachCondition (recording memClient) [''c1'']
       (worldOf [unknownCluster ''c1'', availableCluster ''c2'', unknownCluster ''c3''], [])
     = (Inr True, (worldOf [availableCluster ''c2'', unknownCluster ''c3''],
          [CallGetManagedCluster ''c1'', CallDeleteManagedCluster (unknownCluster ''c1'')]))"
    by (simp add: recording_simps memClient_simps memGetManagedCluster_def
          memDeleteManagedCluster_def worldOf_def unknownCluster_def availableCluster_def ex_simps)
  have b: "GetManagedCluster memClient ''c2'' (worldOf [availableCluster ''c2'', unknownCluster ''c3''])
     = (Inr (availableCluster ''c2''), worldOf [availableCluster ''c2'', unknownCluster ''c3''])"
    by (simp add: memClient_simps memGetManagedCluster_def worldOf_def availableCluster_def)
  have c: "\<not> IsStatusConditionPresentAndEqual (mc_Conditions (availableCluster ''c2''))
             ManagedClusterConditionAvailable ConditionUnknown"
    by (simp add: availableCluster_def ex_simps)
  from pass_stops_at_first_unready[OF a b c, of "[''c3'']" doneAtOnce]
  show ?thesis by (simp add: doneAtOnce_def)
qed

subsection \<open>C7: NotFound at the get, in the annotator and in the detachment\<close>

text \<open>
  Claim C7. In the annotator an error of the get, NotFound like any other, ends the
  loop and \<open>Sync\<close> returns that error. In a pass of the detachment a get that
  answers NotFound is passed over, and the pass goes on with the next cluster.
\<close>

theorem not_found_fatal_then_tolerated:
  assumes "unmarshal payload = Inr ev"
    and "ev_BootstrapSecret ev = Some eventSecret"
    and "syncBootstrapSecret s eventSecret w = (Inr bootstrapSecret, w1)"
    and "syncBootstrapSecretBackup s bootstrapSecret w1 = (Inr bootstrapSecretBackup, w2)"
    and "ev_KlusterletConfig ev = Some eventConfig"
    and "syncKlusterletConfig s eventConfig bootstrapSecret bootstrapSecretBackup w2
           = (Inr klusterletConfig, w3)"
    and "ev_ManagedClusters ev = before @ name # after"
    and "annotateManagedClusters s (kc_Name klusterletConfig) before w3 = (None, w4)"
    and "GetManagedCluster s name w4 = (Inl err, w5)"
    and "GetManagedCluster s name v = (Inl NotFound, v1)"
  shows "annotateManagedClusters s (kc_Name klusterletConfig) (before @ name # after) w3
           = (Some err, w5)
       \<and> Sync s unmarshal ctx payload w = Some (Returned (Some err), w5)
       \<and> detachCondition s (name # rest) v = detachCondition s rest v1"
  using assms
  by (simp add: Sync_def prepareMigration_def annotateManagedClusters_append IsNotFound_def)

text \<open>
  The instruction names \<open>ghost\<close>, which the store does not hold: \<open>Sync\<close> returns
  NotFound after it has announced \<open>c1\<close>, while a pass of the detachment goes past
  \<open>ghost\<close> to \<open>c3\<close>.
\<close>

theorem not_found_fatal_then_tolerated_witness:
  "Sync memClient (exUnmarshal [''c1'', ''ghost'', ''c3'']) neverDone []
       (worldOf [availableCluster ''c1'', availableCluster ''c3''])
     = Some (Returned (Some NotFound),
             exPreparedWorld [announcedCluster ''c1'', availableCluster ''c3''])
   \<and> detachCondition memClient [''ghost'', ''c3'']
       (worldOf [availableCluster ''c1'', availableCluster ''c3''])
     = (Inr False, worldOf [availableCluster ''c1'', availableCluster ''c3''])"
proof -
  let ?w = "worldOf [availableCluster ''c1'', availableCluster ''c3'']"
  let ?w1 = "\<lparr> w_Secrets = [exSecret], w_KlusterletConfigs = [],
               w_ManagedClusters = [availableCluster ''c1'', availableCluster ''c3''] \<rparr>"
  let ?w2 = "\<lparr> w_Secrets = [exSecret, exBackupSecret], w_KlusterletConfigs = [],
               w_ManagedClusters = [availableCluster ''c1'', availableCluster ''c3''] \<rparr>"
  let ?w3 = "exPreparedWorld [availableCluster ''c1'', availableCluster ''c3'']"
  let ?w4 = "exPreparedWorld [announcedCluster ''c1'', availableCluster ''c3'']"
  have a: "exUnmarshal [''c1'', ''ghost'', ''c3''] [] = Inr (exEvent [''c1'', ''ghost'', ''c3''])"
    by (simp add: exUnmarshal_def)
  have b: "ev_BootstrapSecret (exEvent [''c1'', ''ghost'', ''c3'']) = Some exSecret"
    by (simp add: exEvent_def)
  have c: "syncBootstrapSecret memClient exSecret ?w = (Inr exSecret, ?w1)"
    by (simp add: syncBootstrapSecret_def memClient_simps memGetSecret_def memCreateSecret_def
          worldOf_def IsNotFound_def)
  have d: "syncBootstrapSecretBackup memClient exSecret ?w1 = (Inr exBackupSecret, ?w2)"
    by (simp add: syncBootstrapSecretBackup_def memClient_simps memGetSecret_def
          memCreateSecret_def isSecret_def exSecret_def exBackupSecret_def const_simps
          IsNotFound_def Let_def)
  have e: "ev_KlusterletConfig (exEvent [''c1'', ''ghost'', ''c3'']) = Some exConfig"
    by (simp add: exEvent_def)
  have f: "syncKlusterletConfig memClient exConfig exSecret exBackupSecret ?w2
             = (Inr exProvisionedConfig, ?w3)"
    by (simp add: syncKlusterletConfig_def memClient_simps memGetKlusterletConfig_def
          memCreateKlusterletConfig_def exConfig_def exProvisionedConfig_def exSecret_def
          exBackupSecret_def exPreparedWorld_def IsNotFound_def Let_def)
  have g: "ev_ManagedClusters (exEvent [''c1'', ''ghost'', ''c3'']) = [''c1''] @ ''ghost'' # [''c3'']"
    by (simp add: exEvent_def)
  have h: "annotateManagedClusters memClient (kc_Name exProvisionedConfig) [''c1''] ?w3 = (None, ?w4)"
    by (simp add: memClient_simps memGetManagedCluster_def memUpdateManagedCluster_def
          exProvisionedConfig_def exPreparedWorld_def availableCluster_def announcedCluster_def
          alreadyMigrating_def annotationsOf_def setMigrating_def const_simps Let_def)
  have i: "GetManagedCluster memClient ''ghost'' ?w4 = (Inl NotFound, ?w4)"
    by (simp add: memClient_simps memGetManagedCluster_def exPreparedWorld_def
          availableCluster_def announcedCluster_def)
  have j: "GetManagedCluster memClient ''ghost'' ?w = (Inl NotFound, ?w)"
    by (simp add: memClient_simps memGetManagedCluster_def worldOf_def availableCluster_def)
  have k: "detachCondition memClient [''c3''] ?w = (Inr False, ?w)"
    by (simp add: mem_pass_step worldOf_def availableCluster_def ex_simps
          del: detachCondition.simps(2))
  from not_found_fatal_then_tolerated[where unmarshal = "exUnmarshal [''c1'', ''ghost'', ''c3'']"
         and payload = "[]" and ctx = neverDone and rest = "[''c3'']", OF a b c d e f g h i j] k
  show ?thesis by simp
qed

subsection \<open>C8: the klusterlet config\<close>

text \<open>
  Claim C8. The config stage sets the secret list of the event's config to the name
  of the primary followed by the name of the backup. With any client: when the get
  answers NotFound the stage issues exactly one create, of that config; when the get
  finds a config the stage issues no further call and returns without error. On the
  in-memory store with no config of that name, the stage succeeds and the store then
  holds the config with exactly that secret list.
\<close>

theorem config_created_only_when_absent:
  "(GetKlusterletConfig s (kc_Name kc) w = (Inl NotFound, w1) \<longrightarrow>
      syncKlusterletConfig (recording s) kc primary backup (w, l) =
        (case CreateKlusterletConfig s
                (kc \<lparr> kc_KubeConfigSecrets := [secret_Name primary, secret_Name backup] \<rparr>) w1 of
           (r, w2) \<Rightarrow>
             (r, (w2, l @ [CallGetKlusterletConfig (kc_Name kc),
                           CallCreateKlusterletConfig
                             (kc \<lparr> kc_KubeConfigSecrets :=
                                     [secret_Name primary, secret_Name backup] \<rparr>)]))))
 \<and> (GetKlusterletConfig s (kc_Name kc) w = (Inr found, w1) \<longrightarrow>
      syncKlusterletConfig (recording s) kc primary backup (w, l) =
        (Inr (kc \<lparr> kc_KubeConfigSecrets := [secret_Name primary, secret_Name backup] \<rparr>),
         (w1, l @ [CallGetKlusterletConfig (kc_Name kc)])))
 \<and> (GetKlusterletConfig memClient (kc_Name kc) v = (Inl NotFound, v) \<longrightarrow>
      (\<exists>v1. syncKlusterletConfig memClient kc primary backup v =
              (Inr (kc \<lparr> kc_KubeConfigSecrets := [secret_Name primary, secret_Name backup] \<rparr>), v1)
          \<and> GetKlusterletConfig memClient (kc_Name kc) v1 =
              (Inr (kc \<lparr> kc_KubeConfigSecrets := [secret_Name primary, secret_Name backup] \<rparr>), v1)))"
proof (intro conjI impI)
  assume "GetKlusterletConfig s (kc_Name kc) w = (Inl NotFound, w1)"
  then show "syncKlusterletConfig (recording s) kc primary backup (w, l) =
        (case CreateKlusterletConfig s
                (kc \<lparr> kc_KubeConfigSecrets := [secret_Name primary, secret_Name backup] \<rparr>) w1 of
           (r, w2) \<Rightarrow>
             (r, (w2, l @ [CallGetKlusterletConfig (kc_Name kc),
                           CallCreateKlusterletConfig
                             (kc \<lparr> kc_KubeConfigSecrets :=
                                     [secret_Name primary, secret_Name backup] \<rparr>)])))"
    by (simp add: syncKlusterletConfig_def recording_simps IsNotFound_def split: prod.splits)
next
  assume "GetKlusterletConfig s (kc_Name kc) w = (Inr found, w1)"
  then show "syncKlusterletConfig (recording s) kc primary backup (w, l) =
        (Inr (kc \<lparr> kc_KubeConfigSecrets := [secret_Name primary, secret_Name backup] \<rparr>),
         (w1, l @ [CallGetKlusterletConfig (kc_Name kc)]))"
    by (simp add: syncKlusterletConfig_def recording_simps)
next
  assume "GetKlusterletConfig memClient (kc_Name kc) v = (Inl NotFound, v)"
  then have absent: "find (\<lambda>x. kc_Name x = kc_Name kc) (w_KlusterletConfigs v) = None"
    by (simp add: memClient_simps memGetKlusterletConfig_def split: option.splits)
  then show "\<exists>v1. syncKlusterletConfig memClient kc primary backup v =
              (Inr (kc \<lparr> kc_KubeConfigSecrets := [secret_Name primary, secret_Name backup] \<rparr>), v1)
          \<and> GetKlusterletConfig memClient (kc_Name kc) v1 =
              (Inr (kc \<lparr> kc_KubeConfigSecrets := [secret_Name primary, secret_Name backup] \<rparr>), v1)"
    by (simp add: syncKlusterletConfig_def memClient_simps memGetKlusterletConfig_def
          memCreateKlusterletConfig_def IsNotFound_def find_append_one Let_def)
qed

text \<open>
  An empty store, where the config is created, and a store that holds a config of the
  same name with another secret list, which stays as it is.
\<close>

theorem config_created_only_when_absent_witness:
  "syncKlusterletConfig (recording memClient) exConfig exSecret exBackupSecret (configWorld [], [])
     = (Inr exProvisionedConfig,
        (configWorld [exProvisionedConfig],
         [CallGetKlusterletConfig ''migration-hub2'', CallCreateKlusterletConfig exProvisionedConfig]))
   \<and> syncKlusterletConfig (recording memClient) exConfig exSecret exBackupSecret
       (configWorld [exForeignConfig], [])
     = (Inr exProvisionedConfig,
        (configWorld [exForeignConfig], [CallGetKlusterletConfig ''migration-hub2'']))
   \<and> GetKlusterletConfig memClient ''migration-hub2'' (configWorld [exProvisionedConfig])
     = (Inr exProvisionedConfig, configWorld [exProvisionedConfig])"
proof -
  have absent: "GetKlusterletConfig memClient (kc_Name exConfig) (configWorld [])
                  = (Inl NotFound, configWorld [])"
    by (simp add: memClient_simps memGetKlusterletConfig_def configWorld_def)
  have present: "GetKlusterletConfig memClient (kc_Name exConfig) (configWorld [exForeignConfig])
                  = (Inr exForeignConfig, configWorld [exForeignConfig])"
    by (simp add: memClient_simps memGetKlusterletConfig_def configWorld_def exConfig_def
          exForeignConfig_def)
  have provisioned:
    "exConfig \<lparr> kc_KubeConfigSecrets := [secret_Name exSecret, secret_Name exBackupSecret] \<rparr>
       = exProvisionedConfig"
    by (simp add: exConfig_def exProvisionedConfig_def exSecret_def exBackupSecret_def)
  have created: "CreateKlusterletConfig memClient exProvisionedConfig (configWorld [])
                   = (Inr exProvisionedConfig, configWorld [exProvisionedConfig])"
    by (simp add: memClient_simps memCreateKlusterletConfig_def configWorld_def)
  have name: "kc_Name exConfig = ''migration-hub2''"
    by (simp add: exConfig_def)
  have stored: "GetKlusterletConfig memClient ''migration-hub2'' (configWorld [exProvisionedConfig])
     = (Inr exProvisionedConfig, configWorld [exProvisionedConfig])"
    by (simp add: memClient_simps memGetKlusterletConfig_def configWorld_def exProvisionedConfig_def)
  from config_created_only_when_absent[where s = memClient and kc = exConfig
         and w = "configWorld []" and ?w1.0 = "configWorld []"
         and primary = exSecret and backup = exBackupSecret and l = "[]"]
       config_created_only_when_absent[where s = memClient and kc = exConfig
         and w = "configWorld [exForeignConfig]" and ?w1.0 = "configWorld [exForeignConfig]"
         and found = exForeignConfig
         and primary = exSecret and backup = exBackupSecret and l = "[]"]
       absent present provisioned created name stored
  show ?thesis by simp
qed

subsection \<open>C9: a cluster with no Availability condition\<close>

text \<open>
  Claim C9. A pass that fetches a cluster without any Availability condition returns
  \<^verbatim>\<open>(false, nil)\<close> and issues no delete. On the in-memory store, let a listed
  cluster have no Availability condition and let the other actors leave it so during
  the waits: then every pass is incomplete and the cluster stays, the detachment can
  only end by cancellation, with the cluster still in the store, and with a context
  that is never done it does not return.
\<close>

theorem bare_cluster_blocks:
  assumes "name \<in> set names"
    and "hasNoAvailability name w"
    and "\<forall>v. hasNoAvailability name v \<longrightarrow> hasNoAvailability name (snd (ctx v))"
  shows "(GetManagedCluster s name v = (Inr mcl, v1) \<and>
          find (\<lambda>c. cond_Type c = ManagedClusterConditionAvailable) (mc_Conditions mcl) = None
            \<longrightarrow> detachCondition (recording s) (name # rest) (v, l)
                  = (Inr False, (v1, l @ [CallGetManagedCluster name])))
       \<and> (\<exists>v. detachCondition memClient names w = (Inr False, v) \<and> hasNoAvailability name v)
       \<and> (\<forall>res. detachManagedClusters memClient ctx names w = Some res
            \<longrightarrow> fst res = Some ContextCanceled \<and> hasNoAvailability name (snd res))
       \<and> ((\<forall>v. \<not> fst (ctx v)) \<longrightarrow> detachManagedClusters memClient ctx names w = None)"
proof -
  have tick: "detachCondition (recording s) (name # rest) (v, l)
                  = (Inr False, (v1, l @ [CallGetManagedCluster name]))"
    if "GetManagedCluster s name v = (Inr mcl, v1)"
      and "find (\<lambda>c. cond_Type c = ManagedClusterConditionAvailable) (mc_Conditions mcl) = None"
    using that absent_condition_not_equal[OF that(2)]
    by (simp add: recording_simps)
  have keep_ctx: "\<And>v. hasNoAvailability name v \<Longrightarrow> hasNoAvailability name (snd (ctx v))"
    using assms(3) by blast
  have keep_pass: "\<And>v. hasNoAvailability name v \<Longrightarrow>
      hasNoAvailability name (snd (detachCondition memClient names v))"
    using mem_pass_keeps_bare by (metis prod.collapse)
  have out: "fst res = Some ContextCanceled \<and> hasNoAvailability name (snd res)
             \<and> (\<exists>v. fst (ctx v))"
    if ret: "detachManagedClusters memClient ctx names w = Some res" for res
  proof -
    from detach_result_inv[where I = "hasNoAvailability name", OF ret assms(2) keep_ctx keep_pass]
    have bare: "hasNoAvailability name (snd res)"
      and how: "(fst res = None \<and>
                  (\<exists>v. hasNoAvailability name v \<and> detachCondition memClient names v = (Inr True, snd res)))
              \<or> (\<exists>err. fst res = Some err \<and>
                  (\<exists>v. hasNoAvailability name v \<and> detachCondition memClient names v = (Inl err, snd res)))
              \<or> (fst res = Some ContextCanceled \<and>
                  (\<exists>u v. hasNoAvailability name u \<and> detachCondition memClient names u = (Inr False, v)
                     \<and> ctx v = (True, snd res)))"
      by blast+
    from how show ?thesis
    proof (elim disjE conjE exE)
      fix v assume "hasNoAvailability name v" "detachCondition memClient names v = (Inr True, snd res)"
      with mem_pass_blocked[OF assms(1), of v] show ?thesis by auto
    next
      fix err v assume "detachCondition memClient names v = (Inl err, snd res)"
      with mem_pass_no_error show ?thesis by blast
    next
      fix u v assume "fst res = Some ContextCanceled" "ctx v = (True, snd res)"
      with bare show ?thesis by (metis fst_conv)
    qed
  qed
  from tick mem_pass_blocked[OF assms(1,2)] out show ?thesis
    by (metis not_Some_eq)
qed

text \<open>
  \<open>c1\<close> is deleted in the first pass, \<open>c2\<close> has no condition: with a context that
  is never done the detachment does not return.
\<close>

theorem bare_cluster_blocks_witness:
  "detachCondition memClient [''c1'', ''c2''] (worldOf [unknownCluster ''c1'', bareCluster ''c2''])
     = (Inr False, worldOf [bareCluster ''c2''])
   \<and> detachManagedClusters memClient neverDone [''c1'', ''c2'']
       (worldOf [unknownCluster ''c1'', bareCluster ''c2'']) = None
   \<and> detachCondition (recording memClient) [''c2'', ''c3'']
         (worldOf [bareCluster ''c2'', unknownCluster ''c3''], [])
       = (Inr False, (worldOf [bareCluster ''c2'', unknownCluster ''c3''], [CallGetManagedCluster ''c2'']))"
proof -
  have a: "''c2'' \<in> set [''c1'', ''c2'']" by simp
  have b: "hasNoAvailability ''c2'' (worldOf [unknownCluster ''c1'', bareCluster ''c2''])"
    by (simp add: hasNoAvailability_def worldOf_def unknownCluster_def bareCluster_def)
  have c: "\<forall>v. hasNoAvailability ''c2'' v \<longrightarrow> hasNoAvailability ''c2'' (snd (neverDone v))"
    by (simp add: neverDone_def)
  have d: "\<forall>v::World. \<not> fst (neverDone v)"
    by (simp add: neverDone_def)
  have e: "GetManagedCluster memClient ''c2'' (worldOf [bareCluster ''c2'', unknownCluster ''c3''])
             = (Inr (bareCluster ''c2''), worldOf [bareCluster ''c2'', unknownCluster ''c3''])"
    by (simp add: memClient_simps memGetManagedCluster_def worldOf_def bareCluster_def)
  have f: "find (\<lambda>c. cond_Type c = ManagedClusterConditionAvailable)
             (mc_Conditions (bareCluster ''c2'')) = None"
    by (simp add: bareCluster_def)
  have g: "detachCondition memClient [''c1'', ''c2''] (worldOf [unknownCluster ''c1'', bareCluster ''c2''])
     = (Inr False, worldOf [bareCluster ''c2''])"
    by (simp add: mem_pass_step worldOf_def unknownCluster_def bareCluster_def ex_simps
          del: detachCondition.simps(2))
  from bare_cluster_blocks[OF a b c, of memClient
         "worldOf [bareCluster ''c2'', unknownCluster ''c3'']" "bareCluster ''c2''"
         "worldOf [bareCluster ''c2'', unknownCluster ''c3'']" "[''c3'']" "[]"]
    d e f g
  show ?thesis by simp
qed

subsection \<open>C10: an empty list of clusters\<close>

text \<open>
  Claim C10. When the list of cluster names is empty and the two secret stages and
  the config stage have succeeded, the annotator and the detachment issue no call at
  all, the detachment succeeds at its first pass, and \<open>Sync\<close> returns \<^verbatim>\<open>nil\<close> in
  the world, and with the log of calls, that the config stage has left.
\<close>

theorem empty_batch:
  assumes "unmarshal payload = Inr ev"
    and "ev_BootstrapSecret ev = Some eventSecret"
    and "syncBootstrapSecret (recording s) eventSecret (w, l) = (Inr bootstrapSecret, (w1, l1))"
    and "syncBootstrapSecretBackup (recording s) bootstrapSecret (w1, l1)
           = (Inr bootstrapSecretBackup, (w2, l2))"
    and "ev_KlusterletConfig ev = Some eventConfig"
    and "syncKlusterletConfig (recording s) eventConfig bootstrapSecret bootstrapSecretBackup (w2, l2)
           = (Inr klusterletConfig, (w3, l3))"
    and "ev_ManagedClusters ev = []"
  shows "annotateManagedClusters (recording s) (kc_Name klusterletConfig) [] (w3, l3) = (None, (w3, l3))
       \<and> detachManagedClusters (recording s) ctx [] (w3, l3) = Some (None, (w3, l3))
       \<and> Sync (recording s) unmarshal ctx payload (w, l) = Some (Returned None, (w3, l3))"
  using assms
  by (simp add: Sync_def prepareMigration_def detachManagedClusters_first)

text \<open>
  From an empty store: the six calls of the secret and config stages and no other.
\<close>

theorem empty_batch_witness:
  "Sync (recording memClient) (exUnmarshal []) neverDone [] (worldOf [], [])
     = Some (Returned None,
             (exPreparedWorld [],
              [CallGetSecret ''bootstrap-hub2'' ''multicluster-engine'', CallCreateSecret exSecret,
               CallGetSecret ''bootstrap-hub2-backup'' ''multicluster-engine'',
               CallCreateSecret exBackupSecret,
               CallGetKlusterletConfig ''migration-hub2'',
               CallCreateKlusterletConfig exProvisionedConfig]))"
proof -
  let ?l1 = "[CallGetSecret ''bootstrap-hub2'' ''multicluster-engine'', CallCreateSecret exSecret]"
  let ?l2 = "?l1 @ [CallGetSecret ''bootstrap-hub2-backup'' ''multicluster-engine'',
               CallCreateSecret exBackupSecret]"
  let ?l3 = "?l2 @ [CallGetKlusterletConfig ''migration-hub2'',
               CallCreateKlusterletConfig exProvisionedConfig]"
  let ?w1 = "\<lparr> w_Secrets = [exSecret], w_KlusterletConfigs = [], w_ManagedClusters = [] \<rparr>"
  let ?w2 = "\<lparr> w_Secrets = [exSecret, exBackupSecret], w_KlusterletConfigs = [],
               w_ManagedClusters = [] \<rparr>"
  have a: "exUnmarshal [] [] = Inr (exEvent [])"
    by (simp add: exUnmarshal_def)
  have b: "ev_BootstrapSecret (exEvent []) = Some exSecret"
    by (simp add: exEvent_def)
  have c: "syncBootstrapSecret (recording memClient) exSecret (worldOf [], [])
             = (Inr exSecret, (?w1, ?l1))"
    by (simp add: syncBootstrapSecret_def recording_simps memClient_simps memGetSecret_def
          memCreateSecret_def worldOf_def IsNotFound_def exSecret_def)
  have d: "syncBootstrapSecretBackup (recording memClient) exSecret (?w1, ?l1)
             = (Inr exBackupSecret, (?w2, ?l2))"
    by (simp add: syncBootstrapSecretBackup_def recording_simps memClient_simps memGetSecret_def
          memCreateSecret_def isSecret_def exSecret_def exBackupSecret_def const_simps
          IsNotFound_def Let_def)
  have e: "ev_KlusterletConfig (exEvent []) = Some exConfig"
    by (simp add: exEvent_def)
  have f: "syncKlusterletConfig (recording memClient) exConfig exSecret exBackupSecret (?w2, ?l2)
             = (Inr exProvisionedConfig, (exPreparedWorld [], ?l3))"
    by (simp add: syncKlusterletConfig_def recording_simps memClient_simps
          memGetKlusterletConfig_def memCreateKlusterletConfig_def exConfig_def
          exProvisionedConfig_def exSecret_def exBackupSecret_def exPreparedWorld_def
          IsNotFound_def Let_def)
  have g: "ev_ManagedClusters (exEvent []) = []"
    by (simp add: exEvent_def)
  from empty_batch[where unmarshal = "exUnmarshal []" and payload = "[]" and ctx = neverDone,
         OF a b c d e f g]
  show ?thesis by simp
qed

end
